theory Spec2Isabelle
  imports Complex_Main "HOL-Library.Word"
begin

section \<open>Python values\<close>

text \<open>
  A Python float is an IEEE double: a finite value (a dyadic rational, kept here as the
  exact rational it denotes), one of the two infinities, or a NaN.
\<close>

datatype pyfloat = Finite rat | PosInf | NegInf | NaN

text \<open>The comparison \<^verbatim>\<open><\<close> on floats: false whenever a NaN takes part.\<close>

fun float_lt :: "pyfloat \<Rightarrow> pyfloat \<Rightarrow> bool" where
  "float_lt (Finite a) (Finite b) = (a < b)"
| "float_lt (Finite a) PosInf = True"
| "float_lt NegInf (Finite b) = True"
| "float_lt NegInf PosInf = True"
| "float_lt _ _ = False"

text \<open>
  What \<^verbatim>\<open>resp.json()\<close> delivers. An object is kept as the list of its items in
  insertion order, keys distinct (the parser has already resolved duplicates); Python's
  \<^verbatim>\<open>None\<close> is \<open>JNull\<close>.
\<close>

datatype json =
    JNull
  | JBool bool
  | JInt int
  | JFloat pyfloat
  | JStr string
  | JArr "json list"
  | JObj "(string \<times> json) list"

datatype error =
    TransportError
  | HTTPStatusError
  | JSONDecodeError
  | TypeError
  | AttributeError
  | KeyError
  | ValueError
  | ReError
  | OverflowError
  | FileError
  | RenderError

text \<open>\<^verbatim>\<open>d.get(key, default)\<close>; on anything but a dict there is no such method.\<close>

fun py_get :: "json \<Rightarrow> string \<Rightarrow> json \<Rightarrow> error + json" where
  "py_get (JObj kvs) k dflt = Inr (case map_of kvs k of None \<Rightarrow> dflt | Some v \<Rightarrow> v)"
| "py_get _ k dflt = Inl AttributeError"

text \<open>Truth value of an object, as \<^verbatim>\<open>while next_link:\<close> and \<^verbatim>\<open>if not mrl_data:\<close> test it.\<close>

fun truthy :: "json \<Rightarrow> bool" where
  "truthy JNull = False"
| "truthy (JBool b) = b"
| "truthy (JInt i) = (i \<noteq> 0)"
| "truthy (JFloat f) = (f \<noteq> Finite 0)"
| "truthy (JStr s) = (s \<noteq> [])"
| "truthy (JArr xs) = (xs \<noteq> [])"
| "truthy (JObj kvs) = (kvs \<noteq> [])"

text \<open>
  Iterating over a value: a list gives its elements, a string its characters, a dict its
  keys; \<^verbatim>\<open>None\<close>, booleans and numbers are not iterable.
\<close>

fun py_iter :: "json \<Rightarrow> error + json list" where
  "py_iter (JArr xs) = Inr xs"
| "py_iter (JStr s) = Inr (map (\<lambda>c. JStr [c]) s)"
| "py_iter (JObj kvs) = Inr (map (\<lambda>kv. JStr (fst kv)) kvs)"
| "py_iter _ = Inl TypeError"

text \<open>\<^verbatim>\<open>all_items.extend(v)\<close>\<close>

definition list_extend :: "json list \<Rightarrow> json \<Rightarrow> error + json list" where
  "list_extend all_items v =
     (case py_iter v of Inl e \<Rightarrow> Inl e | Inr xs \<Rightarrow> Inr (all_items @ xs))"

section \<open>The HTTP client\<close>

record request =
  req_url :: string
  req_headers :: "(string \<times> string) list"
  req_params :: "(string \<times> string) list"
  req_timeout :: rat

text \<open>
  A request either fails in transport (no response: the client raises) or brings a status
  code and a body, which may or may not be JSON.
\<close>

datatype response = NoResponse | Response nat "json option"

text \<open>
  The network is a transition on a world \<open>'w\<close> that the model does not look into: a GET
  takes the world to a new one and yields the response.
\<close>

type_synonym 'w http = "request \<Rightarrow> 'w \<Rightarrow> response \<times> 'w"

definition BASE_URL_PRODUCT :: string where
  "BASE_URL_PRODUCT =
     ''https://api.datalake.sante.service.ec.europa.eu/sante/pesticides/pesticide_residues_products''"

definition BASE_URL_PEST :: string where
  "BASE_URL_PEST =
     ''https://api.datalake.sante.service.ec.europa.eu/sante/pesticides/active_substances''"

definition BASE_URL_MRL :: string where
  "BASE_URL_MRL =
     ''https://api.datalake.sante.service.ec.europa.eu/sante/pesticides/pesticide_residues_mrls''"

definition HEADERS :: "(string \<times> string) list" where
  "HEADERS = [(''Content-Type'', ''application/json''), (''Cache-Control'', ''no-cache'')]"

definition PARAMS :: "(string \<times> string) list" where
  "PARAMS = [(''format'', ''json''), (''api-version'', ''v2.0''), (''language'', ''en'')]"

definition PARAMS_PEST :: "(string \<times> string) list" where
  "PARAMS_PEST = [(''format'', ''json''), (''api-version'', ''v2.0'')]"

text \<open>\<^verbatim>\<open>raise_for_status\<close> lets the 2xx codes through.\<close>

definition is_success :: "nat \<Rightarrow> bool" where
  "is_success code = (200 \<le> code \<and> code < 300)"

text \<open>
  The three lines \<^verbatim>\<open>resp = client.get(...); resp.raise_for_status(); payload = resp.json()\<close>
  that every request of the module goes through.
\<close>

definition get_json :: "'w http \<Rightarrow> request \<Rightarrow> 'w \<Rightarrow> (error + json) \<times> 'w" where
  "get_json http rq w =
     (case http rq w of
        (NoResponse, w') \<Rightarrow> (Inl TransportError, w')
      | (Response code body, w') \<Rightarrow>
          if \<not> is_success code then (Inl HTTPStatusError, w')
          else (case body of
                  None \<Rightarrow> (Inl JSONDecodeError, w')
                | Some payload \<Rightarrow> (Inr payload, w')))"

section \<open>fetch_all_data\<close>

text \<open>
  The two lines that follow each request:
  \<^verbatim>\<open>all_items.extend(payload.get("value", [])); next_link = payload.get("nextLink")\<close>.
\<close>

definition take_page :: "json list \<Rightarrow> json \<Rightarrow> error + json list \<times> json" where
  "take_page all_items payload =
     (case py_get payload ''value'' (JArr []) of
        Inl e \<Rightarrow> Inl e
      | Inr v \<Rightarrow>
          (case list_extend all_items v of
             Inl e \<Rightarrow> Inl e
           | Inr items \<Rightarrow>
               (case py_get payload ''nextLink'' JNull of
                  Inl e \<Rightarrow> Inl e
                | Inr next_link \<Rightarrow> Inr (items, next_link))))"

text \<open>
  The request for a continuation link carries the headers and no parameters. A link that
  is true but not a string is no URL for the client.
\<close>

definition link_request :: "rat \<Rightarrow> string \<Rightarrow> request" where
  "link_request timeout l =
     \<lparr>req_url = l, req_headers = HEADERS, req_params = [], req_timeout = timeout\<rparr>"

definition follow :: "'w http \<Rightarrow> rat \<Rightarrow> json \<Rightarrow> 'w \<Rightarrow> (error + json) \<times> 'w" where
  "follow http timeout next_link w =
     (case next_link of
        JStr l \<Rightarrow> get_json http (link_request timeout l) w
      | _ \<Rightarrow> (Inl TypeError, w))"

text \<open>
  The loop \<^verbatim>\<open>while next_link:\<close>. Nothing bounds the number of pages, so the loop is a
  partial function: \<open>None\<close> is the run that never ends.
\<close>

partial_function (option) fetch_loop ::
  "'w http \<Rightarrow> rat \<Rightarrow> json \<Rightarrow> json list \<Rightarrow> 'w \<Rightarrow> ((error + json list) \<times> 'w) option"
where
  "fetch_loop http timeout next_link all_items w =
     (if truthy next_link then
        (case follow http timeout next_link w of
           (Inl e, w') \<Rightarrow> Some (Inl e, w')
         | (Inr payload, w') \<Rightarrow>
             (case take_page all_items payload of
                Inl e \<Rightarrow> Some (Inl e, w')
              | Inr (items, next_link') \<Rightarrow> fetch_loop http timeout next_link' items w'))
      else Some (Inr all_items, w))"

text \<open>The first request carries the caller's parameters.\<close>

definition first_request :: "string \<Rightarrow> (string \<times> string) list \<Rightarrow> rat \<Rightarrow> request" where
  "first_request url params timeout =
     \<lparr>req_url = url, req_headers = HEADERS, req_params = params, req_timeout = timeout\<rparr>"

definition fetch_all_data ::
  "'w http \<Rightarrow> string \<Rightarrow> (string \<times> string) list \<Rightarrow> rat \<Rightarrow> 'w
     \<Rightarrow> ((error + json list) \<times> 'w) option"
where
  "fetch_all_data http url params timeout w =
     (case get_json http (first_request url params timeout) w of
        (Inl e, w') \<Rightarrow> Some (Inl e, w')
      | (Inr payload, w') \<Rightarrow>
          (case take_page [] payload of
             Inl e \<Rightarrow> Some (Inl e, w')
           | Inr (items, next_link) \<Rightarrow> fetch_loop http timeout next_link items w'))"

section \<open>get_substance_mrl_EU\<close>

text \<open>
  The comprehension \<^verbatim>\<open>[mlr for mlr in data if mlr.get("applicability_text") == "Applicable"]\<close>,
  element by element: the first element without a \<^verbatim>\<open>get\<close> raises.
\<close>

fun applicable_only :: "json list \<Rightarrow> error + json list" where
  "applicable_only [] = Inr []"
| "applicable_only (mlr # rest) =
     (case py_get mlr ''applicability_text'' JNull of
        Inl e \<Rightarrow> Inl e
      | Inr a \<Rightarrow>
          (case applicable_only rest of
             Inl e \<Rightarrow> Inl e
           | Inr kept \<Rightarrow> Inr (if a = JStr ''Applicable'' then mlr # kept else kept)))"

definition mrl_request :: "string \<Rightarrow> string \<Rightarrow> request" where
  "mrl_request product_id substance_id =
     \<lparr>req_url = BASE_URL_MRL, req_headers = HEADERS,
      req_params = PARAMS_PEST @
        [(''pesticide_residue_id'', substance_id), (''product_id'', product_id)],
      req_timeout = 30\<rparr>"

definition get_substance_mrl_EU ::
  "'w http \<Rightarrow> string \<Rightarrow> string \<Rightarrow> 'w \<Rightarrow> (error + json list) \<times> 'w"
where
  "get_substance_mrl_EU http product_id substance_id w =
     (case get_json http (mrl_request product_id substance_id) w of
        (Inl e, w') \<Rightarrow> (Inl e, w')
      | (Inr payload, w') \<Rightarrow>
          (case py_get payload ''value'' JNull of
             Inl e \<Rightarrow> (Inl e, w')
           | Inr data \<Rightarrow>
               (case py_iter data of
                  Inl e \<Rightarrow> (Inl e, w')
                | Inr entries \<Rightarrow> (applicable_only entries, w'))))"

section \<open>Pages and chains of pages\<close>

text \<open>
  The vocabulary of the statements about pagination. A page is the JSON body of a response
  with a success status; its \<^verbatim>\<open>value\<close> array and its \<^verbatim>\<open>nextLink\<close> are read off the object.
\<close>

fun ok_page :: "response \<Rightarrow> json option" where
  "ok_page (Response code (Some p)) = (if is_success code then Some p else None)"
| "ok_page _ = None"

fun page_value :: "json \<Rightarrow> json list option" where
  "page_value (JObj kvs) =
     (case map_of kvs ''value'' of Some (JArr xs) \<Rightarrow> Some xs | _ \<Rightarrow> None)"
| "page_value _ = None"

fun page_next :: "json \<Rightarrow> json option" where
  "page_next (JObj kvs) = map_of kvs ''nextLink''"
| "page_next _ = None"

definition page_items :: "json \<Rightarrow> json list" where
  "page_items p = (case page_value p of Some xs \<Rightarrow> xs | None \<Rightarrow> [])"

text \<open>
  \<open>page_chain http t rq w ps w_end\<close>: starting in world \<open>w\<close>, the request \<open>rq\<close> is answered
  by the first page of \<open>ps\<close>, each page but the last names in \<^verbatim>\<open>nextLink\<close> a non-empty link
  whose request is answered by the next page, the last page has no \<^verbatim>\<open>nextLink\<close>, and the
  world after the last answer is \<open>w_end\<close>. Every page has a \<^verbatim>\<open>value\<close> array.
\<close>

fun page_chain :: "'w http \<Rightarrow> rat \<Rightarrow> request \<Rightarrow> 'w \<Rightarrow> json list \<Rightarrow> 'w \<Rightarrow> bool" where
  "page_chain http t rq w [] w_end = False"
| "page_chain http t rq w (p # ps) w_end =
     (ok_page (fst (http rq w)) = Some p \<and> page_value p \<noteq> None \<and>
      (if ps = [] then page_next p = None \<and> snd (http rq w) = w_end
       else (case page_next p of
               Some (JStr l) \<Rightarrow>
                 l \<noteq> [] \<and> page_chain http t (link_request t l) (snd (http rq w)) ps w_end
             | _ \<Rightarrow> False)))"

text \<open>An entry of a \<^verbatim>\<open>value\<close> array that is a record with field \<open>k\<close> equal to \<open>v\<close>.\<close>

fun has_field :: "string \<Rightarrow> json \<Rightarrow> json \<Rightarrow> bool" where
  "has_field k v (JObj kvs) = (map_of kvs k = Some v)"
| "has_field k v _ = False"

fun is_record :: "json \<Rightarrow> bool" where
  "is_record (JObj kvs) = True"
| "is_record _ = False"

section \<open>base64\<close>

type_synonym byte = "8 word"

definition b64_alphabet :: string where
  "b64_alphabet = ''ABCDEFGHIJKLMNOPQRSTUVWXYZabcdefghijklmnopqrstuvwxyz0123456789+/''"

definition b64_char :: "nat \<Rightarrow> char" where
  "b64_char n = b64_alphabet ! n"

text \<open>
  \<^verbatim>\<open>base64.b64encode\<close>: three bytes become four characters of the alphabet, six bits each; a
  last group of one or two bytes is padded with \<^verbatim>\<open>=\<close>.
\<close>

fun b64encode :: "byte list \<Rightarrow> string" where
  "b64encode [] = []"
| "b64encode [a] =
     [b64_char (unat a div 4), b64_char (unat a mod 4 * 16), CHR ''='', CHR ''='']"
| "b64encode [a, b] =
     [b64_char (unat a div 4), b64_char (unat a mod 4 * 16 + unat b div 16),
      b64_char (unat b mod 16 * 4), CHR ''='']"
| "b64encode (a # b # c # rest) =
     [b64_char (unat a div 4), b64_char (unat a mod 4 * 16 + unat b div 16),
      b64_char (unat b mod 16 * 4 + unat c div 64), b64_char (unat c mod 64)] @ b64encode rest"

fun index_of :: "char \<Rightarrow> string \<Rightarrow> nat option" where
  "index_of c [] = None"
| "index_of c (x # xs) = (if c = x then Some 0 else map_option Suc (index_of c xs))"

definition b64_index :: "char \<Rightarrow> nat option" where
  "b64_index c = index_of c b64_alphabet"

text \<open>
  Decoding of a padded base64 text, group by group; \<open>None\<close> for a text that is not one.
\<close>

fun b64decode :: "string \<Rightarrow> byte list option" where
  "b64decode [] = Some []"
| "b64decode (c0 # c1 # c2 # c3 # rest) =
     (case (b64_index c0, b64_index c1) of
        (Some i0, Some i1) \<Rightarrow>
          if rest = [] \<and> c2 = CHR ''='' \<and> c3 = CHR ''='' then
            Some [of_nat (i0 * 4 + i1 div 16)]
          else
            (case b64_index c2 of
               Some i2 \<Rightarrow>
                 if rest = [] \<and> c3 = CHR ''='' then
                   Some [of_nat (i0 * 4 + i1 div 16), of_nat (i1 mod 16 * 16 + i2 div 4)]
                 else
                   (case b64_index c3 of
                      Some i3 \<Rightarrow>
                        map_option
                          (\<lambda>bs. of_nat (i0 * 4 + i1 div 16) # of_nat (i1 mod 16 * 16 + i2 div 4) #
                                  of_nat (i2 mod 4 * 64 + i3) # bs)
                          (b64decode rest)
                    | None \<Rightarrow> None)
             | None \<Rightarrow> None)
      | _ \<Rightarrow> None)"
| "b64decode _ = None"

section \<open>pdf_to_base64_images\<close>

definition digit_char :: "nat \<Rightarrow> char" where
  "digit_char d = ''0123456789'' ! d"

text \<open>\<^verbatim>\<open>str(n)\<close> for a natural number, as the f-strings print \<^verbatim>\<open>len(doc)\<close> and the page number.\<close>

fun str_nat :: "nat \<Rightarrow> string" where
  "str_nat n = (if n < 10 then [digit_char n] else str_nat (n div 10) @ [digit_char (n mod 10)])"

declare str_nat.simps [simp del]

text \<open>
  What the call changes outside its result: the documents that are open (one entry per
  handle, named by its path) and the lines printed.
\<close>

record process =
  open_docs :: "string list"
  stdout :: "string list"

text \<open>
  The loop over the pages. \<open>render zx zy page\<close> stands for
  \<^verbatim>\<open>page.get_pixmap(matrix=fitz.Matrix(zx, zy)).tobytes("png")\<close>, which yields the PNG bytes of
  the page or raises; the code calls it with the factors 2 and 2.
\<close>

fun render_pages ::
  "(rat \<Rightarrow> rat \<Rightarrow> 'p \<Rightarrow> error + byte list) \<Rightarrow> nat \<Rightarrow> nat \<Rightarrow> 'p list \<Rightarrow> string list
     \<Rightarrow> string list \<Rightarrow> (error + string list) \<times> string list"
where
  "render_pages render n page_num [] images out = (Inr images, out)"
| "render_pages render n page_num (page # rest) images out =
     (case render 2 2 page of
        Inl e \<Rightarrow> (Inl e, out)
      | Inr img_bytes \<Rightarrow>
          render_pages render n (page_num + 1) rest (images @ [b64encode img_bytes])
            (out @ [''  Page '' @ str_nat (page_num + 1) @ ''/'' @ str_nat n @ '' done'']))"

text \<open>
  \<open>fitz_open\<close> gives the pages of the document at a path, or nothing when it cannot be
  opened. \<^verbatim>\<open>doc.close()\<close> is the last statement before the return: it is reached when the
  loop has run through, and not when a page has raised.
\<close>

definition pdf_to_base64_images ::
  "(string \<Rightarrow> 'p list option) \<Rightarrow> (rat \<Rightarrow> rat \<Rightarrow> 'p \<Rightarrow> error + byte list) \<Rightarrow> string \<Rightarrow> process
     \<Rightarrow> (error + string list) \<times> process"
where
  "pdf_to_base64_images fitz_open render pdf_path st =
     (case fitz_open pdf_path of
        None \<Rightarrow> (Inl FileError, st)
      | Some doc \<Rightarrow>
          (let st1 = st\<lparr>open_docs := pdf_path # open_docs st,
                        stdout := stdout st @
                          [''Converting '' @ str_nat (length doc) @
                           '' page(s) in base64 images...'']\<rparr>
           in case render_pages render (length doc) 0 doc [] (stdout st1) of
                (Inl e, out) \<Rightarrow> (Inl e, st1\<lparr>stdout := out\<rparr>)
              | (Inr images, out) \<Rightarrow>
                  (Inr images,
                   st1\<lparr>stdout := out, open_docs := remove1 pdf_path (open_docs st1)\<rparr>)))"

text \<open>
  \<open>rendered render page img\<close>: the page renders at the factor 2, and \<open>img\<close> is the base64
  text that decodes to its PNG bytes.
\<close>

definition rendered :: "(rat \<Rightarrow> rat \<Rightarrow> 'p \<Rightarrow> error + byte list) \<Rightarrow> 'p \<Rightarrow> string \<Rightarrow> bool" where
  "rendered render page img =
     (case render 2 2 page of
        Inl e \<Rightarrow> False
      | Inr png \<Rightarrow> img = b64encode png \<and> b64decode img = Some png)"

section \<open>The library behind the compliance check\<close>

text \<open>
  Functions and settings of Python and pandas that \<open>fetch_mrl_data\<close> relies on and whose
  text is not part of the module:
  \<^item> \<open>re_compile pat\<close> is \<^verbatim>\<open>re.compile(pat, flags=re.IGNORECASE)\<close>, which
    \<^verbatim>\<open>Series.str.contains(pat, case=False)\<close> calls because its \<^verbatim>\<open>regex\<close> argument is left
    at the default \<^verbatim>\<open>True\<close>: \<open>None\<close> when the pattern does not compile (\<^verbatim>\<open>re.error\<close>),
    otherwise the test \<^verbatim>\<open>pattern.search(s) is not None\<close>;
  \<^item> \<open>float_of_str s\<close> is \<^verbatim>\<open>float(s)\<close> on a string, \<open>None\<close> for \<^verbatim>\<open>ValueError\<close>;
  \<^item> \<open>str_of_float x\<close> is \<^verbatim>\<open>str(x)\<close> of a float;
  \<^item> \<open>int_max_str_digits\<close> is \<^verbatim>\<open>sys.get_int_max_str_digits()\<close>: the number of digits beyond
    which an int is not converted to text, 0 when there is no such limit (4300 unless
    set; the interpreter accepts no setting from 1 to 639).
\<close>

record pylib =
  re_compile :: "string \<Rightarrow> (string \<Rightarrow> bool) option"
  float_of_str :: "string \<Rightarrow> pyfloat option"
  str_of_float :: "pyfloat \<Rightarrow> string"
  int_max_str_digits :: nat

section \<open>The measured value\<close>

text \<open>
  The argument \<^verbatim>\<open>mrl\<close> as the caller passes it: an int (the annotation), a float, or a
  text (the report's JSON carries the value as written, or \<^verbatim>\<open>Not found\<close>).
\<close>

datatype pyvalue = PyInt int | PyFloat pyfloat | PyStr string

fun bit_length :: "nat \<Rightarrow> nat" where
  "bit_length n = (if n = 0 then 0 else Suc (bit_length (n div 2)))"

declare bit_length.simps [simp del]

text \<open>
  A natural number rounded to 53 significant bits, to the nearest and, half way, to the
  even one: the magnitude of the double nearest to it.
\<close>

definition round53 :: "nat \<Rightarrow> nat" where
  "round53 n =
     (let unit = 2 ^ (bit_length n - 53); q = n div unit; r = n mod unit
      in (if unit < 2 * r \<or> (unit = 2 * r \<and> odd q) then q + 1 else q) * unit)"

text \<open>The least magnitude that, rounded, has no double.\<close>

definition dbl_overflow :: nat where
  "dbl_overflow = 2 ^ 1024"

text \<open>\<^verbatim>\<open>float(i)\<close> on an int: the nearest double, or \<^verbatim>\<open>OverflowError\<close>.\<close>

definition float_of_int :: "int \<Rightarrow> error + pyfloat" where
  "float_of_int i =
     (let n = nat \<bar>i\<bar>
      in if dbl_overflow \<le> n \<or> dbl_overflow \<le> round53 n then Inl OverflowError
         else Inr (Finite (if i < 0 then - of_nat (round53 n) else of_nat (round53 n))))"

text \<open>\<^verbatim>\<open>float(mrl)\<close>\<close>

fun py_float :: "pylib \<Rightarrow> pyvalue \<Rightarrow> error + pyfloat" where
  "py_float lib (PyInt i) = float_of_int i"
| "py_float lib (PyFloat x) = Inr x"
| "py_float lib (PyStr s) =
     (case float_of_str lib s of None \<Rightarrow> Inl ValueError | Some x \<Rightarrow> Inr x)"

definition str_int :: "int \<Rightarrow> string" where
  "str_int i = (if i < 0 then CHR ''-'' # str_nat (nat (- i)) else str_nat (nat i))"

text \<open>
  The text of \<^verbatim>\<open>mrl\<close> in an f-string. An int with more digits than the limit raises
  \<^verbatim>\<open>ValueError\<close>.
\<close>

fun py_str :: "pylib \<Rightarrow> pyvalue \<Rightarrow> error + string" where
  "py_str lib (PyInt i) =
     (if int_max_str_digits lib \<noteq> 0 \<and>
         max 640 (int_max_str_digits lib) < length (str_nat (nat \<bar>i\<bar>))
      then Inl ValueError else Inr (str_int i))"
| "py_str lib (PyFloat x) = Inr (str_of_float lib x)"
| "py_str lib (PyStr s) = Inr s"

section \<open>fetch_mrl_data\<close>

text \<open>
  The two cached tables as \<^verbatim>\<open>read_csv\<close> loads them, with the columns the function reads:
  the name (\<open>None\<close> where the cell is empty, a NaN in pandas; otherwise a text that
  \<^verbatim>\<open>read_csv\<close> keeps as text) and the id, already as the text \<^verbatim>\<open>str(...)\<close> makes of the
  cell.
\<close>

record product_row =
  prod_name :: "string option"
  prod_id :: string

record substance_row =
  subst_name :: "string option"
  subst_id :: string

text \<open>
  A column with rows, all of whose cells are empty, is read as a column of floats, and
  \<^verbatim>\<open>.str\<close> refuses it. A table without rows keeps its columns as objects.
\<close>

definition all_missing :: "string option list \<Rightarrow> bool" where
  "all_missing column = (column \<noteq> [] \<and> list_all (\<lambda>cell. cell = None) column)"

text \<open>
  \<^verbatim>\<open>column.str.contains(pat, case=False, na=False)\<close>: the accessor first, then the pattern,
  compiled once as a regular expression; a missing name gives \<open>False\<close>.
\<close>

definition str_contains :: "pylib \<Rightarrow> string option list \<Rightarrow> string \<Rightarrow> error + bool list" where
  "str_contains lib column pat =
     (if all_missing column then Inl AttributeError
      else (case re_compile lib pat of
              None \<Rightarrow> Inl ReError
            | Some found \<Rightarrow>
                Inr (map (\<lambda>cell. case cell of None \<Rightarrow> False | Some s \<Rightarrow> found s) column)))"

text \<open>\<^verbatim>\<open>df[condition]\<close>: the rows at which the condition holds, in the order of the table.\<close>

definition select_rows :: "'r list \<Rightarrow> bool list \<Rightarrow> 'r list" where
  "select_rows df condition = map fst (filter snd (zip df condition))"

text \<open>
  The block that the function runs once per table: the condition, the selection, and
  \<^verbatim>\<open>.iloc[0]\<close> of a selection that is not empty (\<open>None\<close> for an empty one).
\<close>

definition first_match ::
  "pylib \<Rightarrow> 'r list \<Rightarrow> ('r \<Rightarrow> string option) \<Rightarrow> string \<Rightarrow> error + 'r option"
where
  "first_match lib df name_of query =
     (case str_contains lib (map name_of df) query of
        Inl e \<Rightarrow> Inl e
      | Inr condition \<Rightarrow>
          Inr (case select_rows df condition of [] \<Rightarrow> None | row # _ \<Rightarrow> Some row))"

text \<open>What the function returns: \<^verbatim>\<open>None\<close>, or the dict \<^verbatim>\<open>{"error": message}\<close>.\<close>

datatype ret = PyNone | ErrorDict string

definition quoted :: "string \<Rightarrow> string" where
  "quoted s = [CHR 0x27] @ s @ [CHR 0x27]"

text \<open>
  \<^verbatim>\<open>mrl_options_value\<close> and the warning printed on the way: the text with every asterisk
  taken out (\<^verbatim>\<open>replace("*", "")\<close>) is converted, and a text that is no float gives 0 and
  the warning.
\<close>

definition mrl_options_value :: "pylib \<Rightarrow> string \<Rightarrow> pyfloat \<times> string list" where
  "mrl_options_value lib mrl_options =
     (if mrl_options \<noteq> ''No MRL required'' then
        (case float_of_str lib (filter (\<lambda>c. c \<noteq> CHR ''*'') mrl_options) of
           Some v \<Rightarrow> (v, [])
         | None \<Rightarrow>
             (Finite 0,
              [''Warning: Unable to convert MRL option '' @ quoted mrl_options @
               '' to float. Setting to 0.'']))
      else (Finite 0, []))"

text \<open>
  The \<^verbatim>\<open>else\<close> branch, entered with the first applicable rule and \<^verbatim>\<open>mrl\<close>. A
  \<^verbatim>\<open>mrl_value\<close> that is not a string has no \<^verbatim>\<open>replace\<close>, and that error is not the one the
  \<^verbatim>\<open>try\<close> catches. \<^verbatim>\<open>mrl\<close> is printed, and then \<^verbatim>\<open>float(mrl)\<close> is evaluated, outside the
  \<^verbatim>\<open>try\<close> and on both sides of the \<^verbatim>\<open>|\<close>, which does not skip its right operand: when it
  raises, the function ends there. The second component is what has been printed.
\<close>

definition compliance ::
  "pylib \<Rightarrow> string \<Rightarrow> string \<Rightarrow> json \<Rightarrow> pyvalue \<Rightarrow> (error + ret) \<times> string list"
where
  "compliance lib product_name sub_name rule mrl =
     (let out = [''MRL data found for product '' @ quoted product_name @
                 '' and substance '' @ quoted sub_name @ ''.'']
      in case py_get rule ''mrl_value'' (JArr []) of
           Inl e \<Rightarrow> (Inl e, out)
         | Inr (JStr mrl_options) \<Rightarrow>
             (let (value, warning) = mrl_options_value lib mrl_options;
                  out1 = out @ warning @ [''MRL options from EU database: '' @ mrl_options]
              in case py_str lib mrl of
                   Inl e \<Rightarrow> (Inl e, out1)
                 | Inr shown \<Rightarrow>
                     (let out2 = out1 @ [''MRL value from report: '' @ shown]
                      in case py_float lib mrl of
                           Inl e \<Rightarrow> (Inl e, out2)
                         | Inr measured \<Rightarrow>
                             (let mrl_conditions =
                                    (mrl_options = ''No MRL required'' \<or>
                                     float_lt measured value);
                                  compliance_results =
                                    (if mrl_conditions then ''CONFORME''
                                     else ''NON CONFORME'')
                              in (Inr PyNone,
                                  out2 @
                                  [CHR 0x0A # replicate 50 (CHR ''=''),
                                   ''COMPLIANCE RESULT:'',
                                   replicate 50 (CHR ''=''),
                                   compliance_results]))))
         | Inr _ \<Rightarrow> (Inl AttributeError, out))"

text \<open>
  The whole function: the result or the error raised, the lines printed, and the world
  after the requests made.
\<close>

definition fetch_mrl_data ::
  "pylib \<Rightarrow> 'w http \<Rightarrow> product_row list \<Rightarrow> substance_row list \<Rightarrow> string \<Rightarrow> string \<Rightarrow> pyvalue
     \<Rightarrow> 'w \<Rightarrow> (error + ret) \<times> string list \<times> 'w"
where
  "fetch_mrl_data lib http df_prod df_pest product_name sub_name mrl w =
     (case first_match lib df_prod prod_name product_name of
        Inl e \<Rightarrow> (Inl e, [], w)
      | Inr None \<Rightarrow>
          (Inr (ErrorDict (''Product '' @ quoted product_name @ '' not found in EU database.'')),
           [], w)
      | Inr (Some prod_row) \<Rightarrow>
          (case first_match lib df_pest subst_name sub_name of
             Inl e \<Rightarrow> (Inl e, [], w)
           | Inr None \<Rightarrow>
               (Inr (ErrorDict (''Substance '' @ quoted sub_name @
                                '' not found in EU database.'')),
                [], w)
           | Inr (Some pest_row) \<Rightarrow>
               (case get_substance_mrl_EU http (prod_id prod_row) (subst_id pest_row) w of
                  (Inl e, w') \<Rightarrow> (Inl e, [], w')
                | (Inr [], w') \<Rightarrow>
                    (Inr PyNone,
                     [''Error : No MRL data found for product '' @ quoted product_name @
                      '' and substance '' @ quoted sub_name @ ''.''],
                     w')
                | (Inr (rule # _), w') \<Rightarrow>
                    (case compliance lib product_name sub_name rule mrl of
                       (r, out) \<Rightarrow> (r, out, w')))))"

section \<open>The vocabulary of the statements about the compliance check\<close>

text \<open>
  The rule that a pair of names resolves to: the first applicable rule for the first
  matching product and the first matching substance, with the world after the lookup.
\<close>

definition resolved ::
  "pylib \<Rightarrow> 'w http \<Rightarrow> product_row list \<Rightarrow> substance_row list \<Rightarrow> string \<Rightarrow> string \<Rightarrow> 'w
     \<Rightarrow> (json \<times> 'w) option"
where
  "resolved lib http df_prod df_pest product_name sub_name w =
     (case first_match lib df_prod prod_name product_name of
        Inr (Some prod_row) \<Rightarrow>
          (case first_match lib df_pest subst_name sub_name of
             Inr (Some pest_row) \<Rightarrow>
               (case get_substance_mrl_EU http (prod_id prod_row) (subst_id pest_row) w of
                  (Inr (rule # _), w') \<Rightarrow> Some (rule, w')
                | _ \<Rightarrow> None)
           | _ \<Rightarrow> None)
      | _ \<Rightarrow> None)"

text \<open>
  The threshold the code compares with: the float in the text with every asterisk taken
  out, 0 when there is none.
\<close>

definition threshold :: "pylib \<Rightarrow> string \<Rightarrow> pyfloat" where
  "threshold lib s =
     (case float_of_str lib (filter (\<lambda>c. c \<noteq> CHR ''*'') s) of Some v \<Rightarrow> v | None \<Rightarrow> Finite 0)"

text \<open>
  The threshold in the words of the specification, which strips a trailing qualifier
  marker only: the float in the text without the asterisks at its end, 0 when there is
  none.
\<close>

definition strip_trailing_marker :: "string \<Rightarrow> string" where
  "strip_trailing_marker s = rev (dropWhile (\<lambda>c. c = CHR ''*'') (rev s))"

definition spec_threshold :: "pylib \<Rightarrow> string \<Rightarrow> pyfloat" where
  "spec_threshold lib s =
     (case float_of_str lib (strip_trailing_marker s) of Some v \<Rightarrow> v | None \<Rightarrow> Finite 0)"

text \<open>The lines a run has printed, and the last of them, which is where the verdict goes.\<close>

definition printed :: "(error + ret) \<times> string list \<times> 'w \<Rightarrow> string list" where
  "printed r = fst (snd r)"

definition emitted :: "(error + ret) \<times> string list \<times> 'w \<Rightarrow> string" where
  "emitted r = (if printed r = [] then [] else last (printed r))"

definition world :: "(error + ret) \<times> string list \<times> 'w \<Rightarrow> 'w" where
  "world r = snd (snd r)"

text \<open>A value above zero.\<close>

definition positive :: "pyfloat \<Rightarrow> bool" where
  "positive x = float_lt (Finite 0) x"

text \<open>Containment of one string in another without regard to the case of ASCII letters.\<close>

definition ascii_lower :: "char \<Rightarrow> char" where
  "ascii_lower c =
     (case index_of c ''ABCDEFGHIJKLMNOPQRSTUVWXYZ'' of
        None \<Rightarrow> c
      | Some i \<Rightarrow> ''abcdefghijklmnopqrstuvwxyz'' ! i)"

fun starts_with :: "string \<Rightarrow> string \<Rightarrow> bool" where
  "starts_with [] s = True"
| "starts_with (c # cs) [] = False"
| "starts_with (c # cs) (x # xs) = (c = x \<and> starts_with cs xs)"

fun contains :: "string \<Rightarrow> string \<Rightarrow> bool" where
  "contains q [] = (q = [])"
| "contains q (x # xs) = (starts_with q (x # xs) \<or> contains q xs)"

definition contains_ci :: "string \<Rightarrow> string \<Rightarrow> bool" where
  "contains_ci q s = contains (map ascii_lower q) (map ascii_lower s)"

section \<open>create_and_dump_data\<close>

text \<open>
  A data frame, as far as the function looks into one: its columns in order, each with its
  name and its cells, one per row; a cell without a value (NaN, \<^verbatim>\<open>None\<close>) is \<open>None\<close>.
\<close>

type_synonym frame = "(string \<times> json option list) list"

text \<open>
  What the function asks of pandas beyond the shape of a frame:
  \<^item> \<open>frame_of_values\<close> is \<^verbatim>\<open>pd.DataFrame(data)\<close> for a list whose first entry is not a dict;
  \<^item> \<open>fillna_astype_int\<close> is \<^verbatim>\<open>column.fillna(0).astype(int)\<close> on the cells of a column;
  \<^item> \<open>to_csv frame sep index\<close> is the text \<^verbatim>\<open>frame.to_csv(path, index=index, sep=sep)\<close> writes.
\<close>

record pandas =
  frame_of_values :: "json list \<Rightarrow> error + frame"
  fillna_astype_int :: "json option list \<Rightarrow> error + int list"
  to_csv :: "frame \<Rightarrow> string \<Rightarrow> bool \<Rightarrow> string"

fun keys_of :: "json \<Rightarrow> string list option" where
  "keys_of (JObj kvs) = Some (map fst kvs)"
| "keys_of _ = None"

text \<open>The cell of a record under a column: absent keys and \<^verbatim>\<open>None\<close> values have no value.\<close>

fun cell_of :: "string \<Rightarrow> json \<Rightarrow> json option" where
  "cell_of k (JObj kvs) = (case map_of kvs k of Some JNull \<Rightarrow> None | c \<Rightarrow> c)"
| "cell_of k _ = None"

text \<open>The distinct elements of a list, each at the place of its first occurrence.\<close>

definition first_seen :: "'a list \<Rightarrow> 'a list" where
  "first_seen xs = rev (remdups (rev xs))"

text \<open>
  \<^verbatim>\<open>pd.DataFrame(data)\<close> on a list: no records give a frame without columns; a list of dicts
  gives the union of their keys, in the order of first appearance, as columns; a list that
  starts with a dict and holds something that has no \<^verbatim>\<open>keys\<close> raises.
\<close>

definition DataFrame :: "pandas \<Rightarrow> json list \<Rightarrow> error + frame" where
  "DataFrame lib data =
     (case data of
        [] \<Rightarrow> Inr []
      | first # _ \<Rightarrow>
          (if keys_of first = None then frame_of_values lib data
           else if list_ex (\<lambda>d. keys_of d = None) data then Inl AttributeError
           else Inr (map (\<lambda>k. (k, map (cell_of k) data))
                       (first_seen
                          (concat (map (\<lambda>d. case keys_of d of None \<Rightarrow> [] | Some ks \<Rightarrow> ks)
                                     data))))))"

text \<open>\<^verbatim>\<open>frame[name]\<close>: the column, or \<^verbatim>\<open>KeyError\<close> when the frame has none of that name.\<close>

definition getitem :: "frame \<Rightarrow> string \<Rightarrow> error + json option list" where
  "getitem df name = (case map_of df name of None \<Rightarrow> Inl KeyError | Some cells \<Rightarrow> Inr cells)"

text \<open>\<^verbatim>\<open>frame[name] = cells\<close> for a column the frame has: the column keeps its place.\<close>

definition setitem :: "frame \<Rightarrow> string \<Rightarrow> json option list \<Rightarrow> frame" where
  "setitem df name cells = map (\<lambda>(k, old). if k = name then (k, cells) else (k, old)) df"

text \<open>
  The files of the working directory, by relative path. The function ends with an error,
  or with \<^verbatim>\<open>None\<close>; either way it leaves files and a world behind. A fetch that does not
  end leaves the function without an end.
\<close>

type_synonym files = "string \<Rightarrow> string option"

definition create_and_dump_data ::
  "pandas \<Rightarrow> 'w http \<Rightarrow> files \<Rightarrow> 'w \<Rightarrow> ((error + unit) \<times> files \<times> 'w) option"
where
  "create_and_dump_data lib http fs w =
     (case fetch_all_data http BASE_URL_PRODUCT PARAMS 30 w of
        None \<Rightarrow> None
      | Some (Inl e, w1) \<Rightarrow> Some (Inl e, fs, w1)
      | Some (Inr prod_data, w1) \<Rightarrow>
          (case DataFrame lib prod_data of
             Inl e \<Rightarrow> Some (Inl e, fs, w1)
           | Inr df_prod \<Rightarrow>
               (case getitem df_prod ''product_parent_id'' of
                  Inl e \<Rightarrow> Some (Inl e, fs, w1)
                | Inr column \<Rightarrow>
                    (case fillna_astype_int lib column of
                       Inl e \<Rightarrow> Some (Inl e, fs, w1)
                     | Inr ints \<Rightarrow>
                         (let df_coerced = setitem df_prod ''product_parent_id''
                                           (map (\<lambda>i. Some (JInt i)) ints);
                              fs1 = fs(''eu_products.csv'' \<mapsto> to_csv lib df_coerced ''|'' False)
                          in case fetch_all_data http BASE_URL_PEST PARAMS_PEST 30 w1 of
                               None \<Rightarrow> None
                             | Some (Inl e, w2) \<Rightarrow> Some (Inl e, fs1, w2)
                             | Some (Inr pest, w2) \<Rightarrow>
                                 (case DataFrame lib pest of
                                    Inl e \<Rightarrow> Some (Inl e, fs1, w2)
                                  | Inr df_pest \<Rightarrow>
                                      Some (Inr (),
                                            fs1(''eu_pesticides.csv'' \<mapsto>
                                                  to_csv lib df_pest ''|'' False),
                                            w2)))))))"

section \<open>Sample inputs\<close>

text \<open>Concrete pages, rules and servers, on which the statements below are run.\<close>

definition page1 :: json where
  "page1 = JObj [(''value'', JArr [JObj [(''product_id'', JInt 1)], JObj [(''product_id'', JInt 2)]]),
                 (''nextLink'', JStr ''https://host/products?page=2'')]"

definition page2 :: json where
  "page2 = JObj [(''value'', JArr [JObj [(''product_id'', JInt 3)]])]"

definition bare_page :: json where
  "bare_page = JObj [(''count'', JInt 0)]"

definition rule_a :: json where
  "rule_a = JObj [(''mrl_value'', JStr ''0.01*''), (''applicability_text'', JStr ''Applicable'')]"

definition rule_b :: json where
  "rule_b = JObj [(''mrl_value'', JStr ''0.05''), (''applicability_text'', JStr ''Not applicable'')]"

definition rule_c :: json where
  "rule_c = JObj [(''mrl_value'', JStr ''0.02''), (''applicability_text'', JStr ''Applicable'')]"

definition mrl_page :: json where
  "mrl_page = JObj [(''value'', JArr [rule_a, rule_b, rule_c])]"

text \<open>A server whose world is the number of requests it has answered.\<close>

definition sample_http :: "nat http" where
  "sample_http rq n =
     ((if req_url rq = ''https://host/products'' then Response 200 (Some page1)
       else if req_url rq = ''https://host/products?page=2'' then Response 200 (Some page2)
       else if req_url rq = BASE_URL_MRL then Response 200 (Some mrl_page)
       else Response 404 None), Suc n)"

text \<open>A server that answers every request with an object that has no \<^verbatim>\<open>value\<close> key.\<close>

definition bare_http :: "nat http" where
  "bare_http rq n = (Response 200 (Some bare_page), Suc n)"

text \<open>
  Documents whose pages are numbers: page 13 cannot be rendered, every other page \<open>p\<close>
  renders to the four bytes of the PNG signature's start followed by \<open>p\<close>.
\<close>

definition sample_render :: "rat \<Rightarrow> rat \<Rightarrow> nat \<Rightarrow> error + byte list" where
  "sample_render zx zy p =
     (if p = 13 then Inl RenderError else Inr [0x89, 0x50, 0x4E, 0x47, of_nat p])"

definition sample_fitz_open :: "string \<Rightarrow> nat list option" where
  "sample_fitz_open path =
     (if path = ''report.pdf'' then Some [1, 2]
      else if path = ''broken.pdf'' then Some [1, 13, 2]
      else None)"

definition idle :: process where
  "idle = \<lparr>open_docs = [], stdout = []\<rparr>"

text \<open>
  A library for the runs below. Its \<open>re_compile\<close> is Python's on the patterns made of
  ordinary characters, dots and (possibly nested) groups only, and is applied to no other
  pattern: a group of a sequence matches what the sequence matches, a dot any character but
  a newline, a letter itself in either case, and a parenthesis without its partner does not
  compile. Its \<open>float_of_str\<close> and \<open>str_of_float\<close> list the doubles the runs use, each by
  the exact value of the double; the digit limit is the default.
\<close>

fun re_atoms :: "string \<Rightarrow> nat \<Rightarrow> char option list option" where
  "re_atoms [] depth = (if depth = 0 then Some [] else None)"
| "re_atoms (c # cs) depth =
     (if c = CHR ''('' then re_atoms cs (Suc depth)
      else if c = CHR '')'' then (case depth of 0 \<Rightarrow> None | Suc d \<Rightarrow> re_atoms cs d)
      else map_option (Cons (if c = CHR ''.'' then None else Some c)) (re_atoms cs depth))"

fun atom_matches :: "char option \<Rightarrow> char \<Rightarrow> bool" where
  "atom_matches None x = (x \<noteq> CHR 0x0A)"
| "atom_matches (Some c) x = (ascii_lower c = ascii_lower x)"

fun match_here :: "char option list \<Rightarrow> string \<Rightarrow> bool" where
  "match_here [] s = True"
| "match_here (a # as) [] = False"
| "match_here (a # as) (x # xs) = (atom_matches a x \<and> match_here as xs)"

fun search :: "char option list \<Rightarrow> string \<Rightarrow> bool" where
  "search as [] = (as = [])"
| "search as (x # xs) = (match_here as (x # xs) \<or> search as xs)"

definition other_special :: "char list" where
  "other_special = ''^$*+?{}[]|'' @ [CHR 0x5C]"

definition sample_re_compile :: "string \<Rightarrow> (string \<Rightarrow> bool) option" where
  "sample_re_compile pat =
     (if list_ex (\<lambda>c. c \<in> set other_special) pat then None
      else map_option search (re_atoms pat 0))"

definition d0005 :: pyfloat where
  "d0005 = Finite (5764607523034235 / 1152921504606846976)"

definition d001 :: pyfloat where
  "d001 = Finite (5764607523034235 / 576460752303423488)"

definition d002 :: pyfloat where
  "d002 = Finite (5764607523034235 / 288230376151711744)"

definition sample_float_of_str :: "string \<Rightarrow> pyfloat option" where
  "sample_float_of_str s =
     map_of [(''0.005'', d0005), (''0.01'', d001), (''0.02'', d002), (''15'', Finite 15)] s"

definition sample_str_of_float :: "pyfloat \<Rightarrow> string" where
  "sample_str_of_float x =
     (if x = d0005 then ''0.005'' else if x = d001 then ''0.01''
      else if x = d002 then ''0.02'' else if x = Finite 10 then ''10.0'' else ''nan'')"

definition sample_lib :: pylib where
  "sample_lib = \<lparr>re_compile = sample_re_compile, float_of_str = sample_float_of_str,
                  str_of_float = sample_str_of_float, int_max_str_digits = 4300\<rparr>"

definition sample_products :: "product_row list" where
  "sample_products =
     [\<lparr>prod_name = Some ''Beans (with pods)'', prod_id = ''260010''\<rparr>,
      \<lparr>prod_name = None, prod_id = ''9''\<rparr>,
      \<lparr>prod_name = Some ''Apple, dessert'', prod_id = ''1''\<rparr>,
      \<lparr>prod_name = Some ''Pineapples'', prod_id = ''2''\<rparr>,
      \<lparr>prod_name = Some ''Kiwi fruits'', prod_id = ''3''\<rparr>,
      \<lparr>prod_name = Some ''Mangoes'', prod_id = ''4''\<rparr>]"

definition sample_substances :: "substance_row list" where
  "sample_substances = [\<lparr>subst_name = Some ''Captan'', subst_id = ''7''\<rparr>]"

definition rule_abc :: json where
  "rule_abc = JObj [(''mrl_value'', JStr ''abc''), (''applicability_text'', JStr ''Applicable'')]"

definition rule_free :: json where
  "rule_free = JObj [(''mrl_value'', JStr ''No MRL required''),
                     (''applicability_text'', JStr ''Applicable'')]"

definition rule_star :: json where
  "rule_star = JObj [(''mrl_value'', JStr ''1*5''), (''applicability_text'', JStr ''Applicable'')]"

text \<open>A server for the MRL query that answers by the product id.\<close>

definition mrl_http :: "nat http" where
  "mrl_http rq n =
     ((if req_url rq \<noteq> BASE_URL_MRL then Response 404 None
       else if map_of (req_params rq) ''product_id'' = Some ''2''
         then Response 200 (Some (JObj [(''value'', JArr [rule_abc])]))
       else if map_of (req_params rq) ''product_id'' = Some ''3''
         then Response 200 (Some (JObj [(''value'', JArr [rule_free])]))
       else if map_of (req_params rq) ''product_id'' = Some ''4''
         then Response 200 (Some (JObj [(''value'', JArr [rule_star])]))
       else Response 200 (Some mrl_page)), Suc n)"

text \<open>A server whose every answer is a page with an empty \<^verbatim>\<open>value\<close> array.\<close>

definition empty_http :: "nat http" where
  "empty_http rq n = (Response 200 (Some (JObj [(''value'', JArr [])])), Suc n)"

text \<open>A working directory that holds a product cache from an earlier run.\<close>

definition old_files :: files where
  "old_files = [''eu_products.csv'' \<mapsto> ''product_id|product_parent_id'']"

section \<open>Properties of the HTTP operations\<close>

lemmas sample_defs = sample_http_def bare_http_def page1_def page2_def bare_page_def mrl_page_def
  rule_a_def rule_b_def rule_c_def first_request_def link_request_def mrl_request_def
  is_success_def BASE_URL_MRL_def

lemma get_json_ok_page:
  assumes "ok_page (fst (http rq w)) = Some p"
  shows "get_json http rq w = (Inr p, snd (http rq w))"
proof -
  obtain r w' where h: "http rq w = (r, w')" by (cases "http rq w")
  with assms have "ok_page r = Some p" by simp
  then obtain code where "r = Response code (Some p)" "is_success code"
    by (cases r rule: ok_page.cases) (auto split: if_splits)
  with h show ?thesis by (simp add: get_json_def)
qed

lemma take_page_array:
  assumes "page_value p = Some xs"
  shows "take_page acc p = Inr (acc @ xs, case page_next p of None \<Rightarrow> JNull | Some n \<Rightarrow> n)"
  using assms
  by (cases p) (auto simp: take_page_def list_extend_def split: option.splits json.splits)

lemma page_items_Some: "page_value p = Some xs \<Longrightarrow> page_items p = xs"
  by (simp add: page_items_def)

text \<open>
  The loop, entered with a non-empty link whose chain of pages is \<open>ps\<close>, ends, and it has
  appended the pages' arrays to what it was entered with.
\<close>

lemma fetch_loop_chain:
  "page_chain http t (link_request t l) w ps w_end \<Longrightarrow> l \<noteq> [] \<Longrightarrow>
   fetch_loop http t (JStr l) acc w = Some (Inr (acc @ concat (map page_items ps)), w_end)"
proof (induction ps arbitrary: l acc w)
  case Nil
  then show ?case by simp
next
  case (Cons p ps)
  let ?rq = "link_request t l"
  from Cons.prems obtain xs where ok: "ok_page (fst (http ?rq w)) = Some p"
    and xs: "page_value p = Some xs" by auto
  have gj: "follow http t (JStr l) w = (Inr p, snd (http ?rq w))"
    using get_json_ok_page[of http ?rq w p] ok by (simp add: follow_def)
  note tp = take_page_array[OF xs, of acc]
  show ?case
  proof (cases "ps = []")
    case True
    with Cons.prems have "page_next p = None" "snd (http ?rq w) = w_end" by auto
    then show ?thesis using True Cons.prems(2) gj tp xs
      by (subst fetch_loop.simps, simp add: page_items_Some, subst fetch_loop.simps, simp)
  next
    case False
    with Cons.prems obtain l' where nx: "page_next p = Some (JStr l')" and l': "l' \<noteq> []"
      and ch: "page_chain http t (link_request t l') (snd (http ?rq w)) ps w_end"
      by (auto split: option.splits json.splits)
    from Cons.IH[OF ch l'] show ?thesis using Cons.prems(2) gj tp xs nx
      by (subst fetch_loop.simps) (simp add: page_items_Some)
  qed
qed

lemma fetch_all_data_pages:
  assumes "page_chain http timeout (first_request url params timeout) w ps w_end"
  shows "fetch_all_data http url params timeout w = Some (Inr (concat (map page_items ps)), w_end)"
proof (cases ps)
  case Nil
  with assms show ?thesis by simp
next
  case (Cons p qs)
  let ?rq = "first_request url params timeout"
  from assms Cons obtain xs where ok: "ok_page (fst (http ?rq w)) = Some p"
    and xs: "page_value p = Some xs" by auto
  have gj: "get_json http ?rq w = (Inr p, snd (http ?rq w))"
    using get_json_ok_page[of http ?rq w p] ok by simp
  note tp = take_page_array[OF xs, of "[]"]
  show ?thesis
  proof (cases "qs = []")
    case True
    with assms Cons have "page_next p = None" "snd (http ?rq w) = w_end" by auto
    then show ?thesis using True Cons gj tp xs
      by (simp add: fetch_all_data_def page_items_Some fetch_loop.simps)
  next
    case False
    with assms Cons obtain l where nx: "page_next p = Some (JStr l)" and l: "l \<noteq> []"
      and ch: "page_chain http timeout (link_request timeout l) (snd (http ?rq w)) qs w_end"
      by (auto split: option.splits json.splits)
    from fetch_loop_chain[OF ch l, of xs] show ?thesis using Cons gj tp xs nx
      by (simp add: fetch_all_data_def page_items_Some)
  qed
qed

text \<open>
  C2. For a chain of \<open>N\<close> pages (\<open>ps\<close>, each a JSON object with a \<^verbatim>\<open>value\<close> array, linked by
  \<^verbatim>\<open>nextLink\<close>, the last without one), \<open>fetch_all_data\<close> returns, and what it returns is the
  concatenation of the pages' \<^verbatim>\<open>value\<close> arrays in the order of the requests. With
  \<open>ps = [p]\<close> (the first response has no \<^verbatim>\<open>nextLink\<close>) that is the array of \<open>p\<close> alone.
\<close>

theorem fetch_all_data_concat:
  assumes "page_chain http timeout (first_request url params timeout) w ps w_end"
  shows "fetch_all_data http url params timeout w =
           Some (Inr (concat (map page_items ps)), w_end) \<and>
         (\<forall>p. ps = [p] \<longrightarrow>
            fetch_all_data http url params timeout w = Some (Inr (page_items p), w_end))"
  using fetch_all_data_pages[OF assms] by simp

theorem fetch_all_data_concat_witness:
  "page_chain sample_http 30 (first_request ''https://host/products'' PARAMS 30) 0
     [page1, page2] 2 \<and>
   fetch_all_data sample_http ''https://host/products'' PARAMS 30 0 =
     Some (Inr [JObj [(''product_id'', JInt 1)], JObj [(''product_id'', JInt 2)],
                JObj [(''product_id'', JInt 3)]], 2) \<and>
   page_chain sample_http 30 (first_request ''https://host/products?page=2'' PARAMS 30) 0
     [page2] 1 \<and>
   fetch_all_data sample_http ''https://host/products?page=2'' PARAMS 30 0 =
     Some (Inr [JObj [(''product_id'', JInt 3)]], 1)"
proof -
  have c2: "page_chain sample_http 30 (first_request ''https://host/products'' PARAMS 30) 0
      [page1, page2] 2"
    by (simp add: sample_defs)
  have c1: "page_chain sample_http 30 (first_request ''https://host/products?page=2'' PARAMS 30) 0
      [page2] 1"
    by (simp add: sample_defs)
  show ?thesis
    using c1 c2 fetch_all_data_concat[OF c1] fetch_all_data_concat[OF c2]
    by (simp add: page_items_def page1_def page2_def)
qed

lemma applicable_only_records:
  "\<forall>x\<in>set xs. is_record x \<Longrightarrow>
   applicable_only xs = Inr (filter (has_field ''applicability_text'' (JStr ''Applicable'')) xs)"
proof (induction xs)
  case Nil
  show ?case by simp
next
  case (Cons x xs)
  then obtain kvs where x: "x = JObj kvs" by (cases x) auto
  from Cons have "applicable_only xs =
      Inr (filter (has_field ''applicability_text'' (JStr ''Applicable'')) xs)" by simp
  then show ?case using x by (auto split: option.splits)
qed

text \<open>
  C6. When the MRL query is answered (success status, JSON object) with a \<^verbatim>\<open>value\<close> array
  \<open>xs\<close> of records, \<open>get_substance_mrl_EU\<close> returns exactly the entries of \<open>xs\<close> whose
  \<^verbatim>\<open>applicability_text\<close> is the string \<^verbatim>\<open>Applicable\<close>, in the order of the response; the
  result may be empty.
\<close>

theorem get_substance_mrl_EU_applicable:
  assumes "ok_page (fst (http (mrl_request product_id substance_id) w)) = Some p"
    and "page_value p = Some xs"
    and "\<forall>x\<in>set xs. is_record x"
  shows "get_substance_mrl_EU http product_id substance_id w =
           (Inr (filter (has_field ''applicability_text'' (JStr ''Applicable'')) xs),
            snd (http (mrl_request product_id substance_id) w))"
proof -
  from assms(2) obtain kvs where p: "p = JObj kvs" and v: "map_of kvs ''value'' = Some (JArr xs)"
    by (cases p) (auto split: option.splits json.splits)
  show ?thesis
    using get_json_ok_page[of http "mrl_request product_id substance_id" w p] assms(1)
      applicable_only_records[OF assms(3)] p v
    by (simp add: get_substance_mrl_EU_def)
qed

theorem get_substance_mrl_EU_applicable_witness:
  "ok_page (fst (sample_http (mrl_request ''1'' ''2'') 0)) = Some mrl_page \<and>
   page_value mrl_page = Some [rule_a, rule_b, rule_c] \<and>
   is_record rule_a \<and> is_record rule_b \<and> is_record rule_c \<and>
   get_substance_mrl_EU sample_http ''1'' ''2'' 0 = (Inr [rule_a, rule_c], 1)"
  using get_substance_mrl_EU_applicable[of sample_http "''1''" "''2''" 0 mrl_page
    "[rule_a, rule_b, rule_c]"]
  by (simp add: sample_defs)

text \<open>
  C10. A response object without a \<^verbatim>\<open>value\<close> key: \<open>get_substance_mrl_EU\<close> raises (a
  \<^verbatim>\<open>TypeError\<close>, from iterating over \<^verbatim>\<open>None\<close>) and returns no sequence, while in
  \<open>fetch_all_data\<close> such a page adds nothing to the records collected so far, and a fetch
  whose only page it is returns the empty list.
\<close>

theorem missing_value_key:
  assumes "map_of kvs ''value'' = None"
  shows "(ok_page (fst (http (mrl_request product_id substance_id) w)) = Some (JObj kvs) \<longrightarrow>
            get_substance_mrl_EU http product_id substance_id w =
              (Inl TypeError, snd (http (mrl_request product_id substance_id) w))) \<and>
         take_page all_items (JObj kvs) =
            Inr (all_items, case map_of kvs ''nextLink'' of None \<Rightarrow> JNull | Some n \<Rightarrow> n) \<and>
         (ok_page (fst (http (first_request url params timeout) w')) = Some (JObj kvs) \<and>
          map_of kvs ''nextLink'' = None \<longrightarrow>
            fetch_all_data http url params timeout w' =
              Some (Inr [], snd (http (first_request url params timeout) w')))"
proof (intro conjI impI)
  assume "ok_page (fst (http (mrl_request product_id substance_id) w)) = Some (JObj kvs)"
  with get_json_ok_page[of http "mrl_request product_id substance_id" w "JObj kvs"] assms
  show "get_substance_mrl_EU http product_id substance_id w =
          (Inl TypeError, snd (http (mrl_request product_id substance_id) w))"
    by (simp add: get_substance_mrl_EU_def)
next
  show tp: "take_page all_items (JObj kvs) =
      Inr (all_items, case map_of kvs ''nextLink'' of None \<Rightarrow> JNull | Some n \<Rightarrow> n)"
    for all_items
    using assms by (simp add: take_page_def list_extend_def)
  assume "ok_page (fst (http (first_request url params timeout) w')) = Some (JObj kvs) \<and>
          map_of kvs ''nextLink'' = None"
  then have ok: "ok_page (fst (http (first_request url params timeout) w')) = Some (JObj kvs)"
    and nl: "map_of kvs ''nextLink'' = None" by simp_all
  from get_json_ok_page[of http "first_request url params timeout" w' "JObj kvs"] ok
    tp[of "[]"] nl
  show "fetch_all_data http url params timeout w' =
          Some (Inr [], snd (http (first_request url params timeout) w'))"
    by (simp add: fetch_all_data_def fetch_loop.simps)
qed

theorem missing_value_key_witness:
  "map_of [(''count'', JInt 0)] ''value'' = None \<and>
   ok_page (fst (bare_http (mrl_request ''1'' ''2'') 0)) = Some bare_page \<and>
   get_substance_mrl_EU bare_http ''1'' ''2'' 0 = (Inl TypeError, 1) \<and>
   take_page [JInt 7] bare_page = Inr ([JInt 7], JNull) \<and>
   ok_page (fst (bare_http (first_request ''https://host/products'' PARAMS 30) 0)) =
     Some bare_page \<and>
   fetch_all_data bare_http ''https://host/products'' PARAMS 30 0 = Some (Inr [], 1)"
  using missing_value_key[of "[(''count'', JInt 0)]" bare_http "''1''" "''2''" 0 "[JInt 7]"
    "''https://host/products''" PARAMS 30 0]
  by (simp add: sample_defs)

section \<open>Properties of base64\<close>

lemma b64_index_char_all:
  "list_all (\<lambda>n. b64_index (b64_char n) = Some n \<and> b64_char n \<noteq> CHR ''='') [0..<64]"
  by code_simp

lemma b64_index_char: "n < 64 \<Longrightarrow> b64_index (b64_char n) = Some n"
  using b64_index_char_all by (simp add: list_all_iff)

lemma b64_char_not_pad: "n < 64 \<Longrightarrow> b64_char n \<noteq> CHR ''=''"
  using b64_index_char_all by (simp add: list_all_iff)

lemma unat_byte: "unat (a :: byte) < 256"
  using unsigned_less[of a, where 'a = nat] by simp

lemma sextet_bounds:
  fixes x y z :: nat
  assumes "x < 256" "y < 256" "z < 256"
  shows "x div 4 < 64" "x mod 4 * 16 < 64" "x mod 4 * 16 + y div 16 < 64"
    "y mod 16 * 4 < 64" "y mod 16 * 4 + z div 64 < 64" "z mod 64 < 64"
  using assms by linarith+

lemma sextet_bytes:
  fixes x y z :: nat
  assumes "x < 256" "y < 256" "z < 256"
  shows "x div 4 * 4 + (x mod 4 * 16) div 16 = x"
    "x div 4 * 4 + (x mod 4 * 16 + y div 16) div 16 = x"
    "(x mod 4 * 16 + y div 16) mod 16 * 16 + (y mod 16 * 4) div 4 = y"
    "(x mod 4 * 16 + y div 16) mod 16 * 16 + (y mod 16 * 4 + z div 64) div 4 = y"
    "(y mod 16 * 4 + z div 64) mod 4 * 64 + z mod 64 = z"
proof -
  have a: "y div 16 < 16" "z div 64 < 4" using assms by linarith+
  have b: "(x mod 4 * 16 + y div 16) div 16 = x mod 4" "(x mod 4 * 16 + y div 16) mod 16 = y div 16"
    using a by simp_all
  have c: "(y mod 16 * 4 + z div 64) div 4 = y mod 16" "(y mod 16 * 4 + z div 64) mod 4 = z div 64"
    using a by simp_all
  show "x div 4 * 4 + (x mod 4 * 16) div 16 = x" by simp
  show "x div 4 * 4 + (x mod 4 * 16 + y div 16) div 16 = x" using b by simp
  show "(x mod 4 * 16 + y div 16) mod 16 * 16 + (y mod 16 * 4) div 4 = y" using b by simp
  show "(x mod 4 * 16 + y div 16) mod 16 * 16 + (y mod 16 * 4 + z div 64) div 4 = y"
    using b c by simp
  show "(y mod 16 * 4 + z div 64) mod 4 * 64 + z mod 64 = z" using c by simp
qed

text \<open>Decoding undoes encoding.\<close>

lemma b64decode_b64encode: "b64decode (b64encode bs) = Some bs"
proof (induction bs rule: b64encode.induct)
  case 1
  show ?case by simp
next
  case (2 a)
  note x = unat_byte[of a]
  show ?case
    using sextet_bounds(1,2)[OF x x x] sextet_bytes(1)[OF x x x]
    by (simp add: b64_index_char b64_char_not_pad)
next
  case (3 a b)
  note x = unat_byte[of a] and y = unat_byte[of b]
  show ?case
    using sextet_bounds(1,3,4)[OF x y y] sextet_bytes(2,3)[OF x y y]
    by (simp add: b64_index_char b64_char_not_pad)
next
  case (4 a b c rest)
  note x = unat_byte[of a] and y = unat_byte[of b] and z = unat_byte[of c]
  show ?case
    using 4 sextet_bounds(1,3,5,6)[OF x y z] sextet_bytes(2,4,5)[OF x y z]
    by (simp add: b64_index_char b64_char_not_pad)
qed

lemma render_pages_ok:
  "\<forall>page\<in>set doc. \<not> isl (render 2 2 page) \<Longrightarrow>
   \<exists>imgs out'. render_pages render n k doc images out = (Inr (images @ imgs), out') \<and>
      list_all2 (rendered render) doc imgs"
proof (induction doc arbitrary: k images out)
  case Nil
  show ?case by simp
next
  case (Cons page rest)
  then obtain png where png: "render 2 2 page = Inr png" by (cases "render 2 2 page") auto
  let ?out = "out @ [''  Page '' @ str_nat (k + 1) @ ''/'' @ str_nat n @ '' done'']"
  from Cons.prems have "\<forall>page\<in>set rest. \<not> isl (render 2 2 page)" by simp
  from Cons.IH[OF this, of "k + 1" "images @ [b64encode png]" ?out]
  obtain imgs out' where
    r: "render_pages render n (k + 1) rest (images @ [b64encode png]) ?out
       = (Inr ((images @ [b64encode png]) @ imgs), out')"
    and l: "list_all2 (rendered render) rest imgs"
    by blast
  have "rendered render page (b64encode png)"
    using png by (simp add: rendered_def b64decode_b64encode)
  with r l png show ?case
    by (intro exI[of _ "b64encode png # imgs"] exI[of _ out']) simp
qed

lemma render_pages_fail:
  "\<exists>page\<in>set doc. isl (render 2 2 page) \<Longrightarrow>
   \<exists>e out'. render_pages render n k doc images out = (Inl e, out')"
proof (induction doc arbitrary: k images out)
  case Nil
  then show ?case by simp
next
  case (Cons page rest)
  show ?case
  proof (cases "render 2 2 page")
    case (Inl e)
    then show ?thesis by simp
  next
    case (Inr png)
    with Cons.prems have "\<exists>page\<in>set rest. isl (render 2 2 page)" by auto
    from Cons.IH[OF this] show ?thesis using Inr by simp
  qed
qed

lemma pdf_pages_rendered:
  assumes "fitz_open pdf_path = Some doc"
    and "\<forall>page\<in>set doc. \<not> isl (render 2 2 page)"
  shows "\<exists>images. fst (pdf_to_base64_images fitz_open render pdf_path st) = Inr images \<and>
           list_all2 (rendered render) doc images \<and>
           open_docs (snd (pdf_to_base64_images fitz_open render pdf_path st)) = open_docs st"
proof -
  let ?out = "stdout st @ [''Converting '' @ str_nat (length doc) @ '' page(s) in base64 images...'']"
  from assms(2) render_pages_ok[where doc = doc and render = render and n = "length doc"
      and k = 0 and images = "[]" and out = ?out]
  obtain imgs out' where "render_pages render (length doc) 0 doc [] ?out = (Inr imgs, out')"
    and "list_all2 (rendered render) doc imgs" by auto
  then show ?thesis using assms(1)
    by (simp add: pdf_to_base64_images_def Let_def)
qed

lemma pdf_page_raises:
  assumes "fitz_open pdf_path = Some doc"
    and "\<exists>page\<in>set doc. isl (render 2 2 page)"
  shows "isl (fst (pdf_to_base64_images fitz_open render pdf_path st)) \<and>
         open_docs (snd (pdf_to_base64_images fitz_open render pdf_path st)) =
           pdf_path # open_docs st"
proof -
  let ?out = "stdout st @ [''Converting '' @ str_nat (length doc) @ '' page(s) in base64 images...'']"
  obtain e out' where "render_pages render (length doc) 0 doc [] ?out = (Inl e, out')"
    using assms(2) render_pages_fail[where doc = doc and render = render and n = "length doc"
      and k = 0 and images = "[]" and out = ?out] by blast
  then show ?thesis using assms(1)
    by (simp add: pdf_to_base64_images_def Let_def)
qed

section \<open>Properties of the report imager\<close>

lemma str_nat_digit: "n < 10 \<Longrightarrow> str_nat n = [digit_char n]"
  by (simp add: str_nat.simps)

text \<open>
  C9. For a PDF of \<open>N\<close> pages that opens and whose pages all render, the call returns \<open>N\<close>
  base64 strings, one per page and in page order, and each decodes to the PNG bytes of its
  page rendered at the factor 2. (A page that raises ends the call with that error: see C8.)
\<close>

theorem pdf_to_base64_images_pages:
  assumes "fitz_open pdf_path = Some doc"
    and "\<forall>page\<in>set doc. \<not> isl (render 2 2 page)"
  shows "\<exists>images. fst (pdf_to_base64_images fitz_open render pdf_path st) = Inr images \<and>
           length images = length doc \<and>
           list_all2 (rendered render) doc images"
proof -
  from pdf_pages_rendered[where fitz_open = fitz_open and pdf_path = pdf_path and doc = doc
      and render = render and st = st] assms
  obtain images where i: "fst (pdf_to_base64_images fitz_open render pdf_path st) = Inr images"
    and l: "list_all2 (rendered render) doc images" by blast
  from l have "length images = length doc" by (simp add: list_all2_lengthD)
  with i l show ?thesis by blast
qed

theorem pdf_to_base64_images_pages_witness:
  "sample_fitz_open ''report.pdf'' = Some [1, 2] \<and>
   \<not> isl (sample_render 2 2 1) \<and> \<not> isl (sample_render 2 2 2) \<and>
   fst (pdf_to_base64_images sample_fitz_open sample_render ''report.pdf'' idle) =
     Inr [''iVBORwE='', ''iVBORwI=''] \<and>
   b64decode ''iVBORwE='' = Some [0x89, 0x50, 0x4E, 0x47, 1] \<and>
   b64decode ''iVBORwI='' = Some [0x89, 0x50, 0x4E, 0x47, 2] \<and>
   (\<exists>images. fst (pdf_to_base64_images sample_fitz_open sample_render ''report.pdf'' idle) =
        Inr images \<and> length images = 2 \<and>
      list_all2 (rendered sample_render) [1, 2] images)"
proof -
  have o: "sample_fitz_open ''report.pdf'' = Some [1, 2]"
    by (simp add: sample_fitz_open_def)
  have r: "\<forall>page\<in>set [1, 2]. \<not> isl (sample_render 2 2 page)"
    by (simp add: sample_render_def)
  have e: "b64encode [0x89, 0x50, 0x4E, 0x47, 1] = ''iVBORwE=''"
    "b64encode [0x89, 0x50, 0x4E, 0x47, 2] = ''iVBORwI=''"
    by code_simp+
  have v: "fst (pdf_to_base64_images sample_fitz_open sample_render ''report.pdf'' idle) =
      Inr [''iVBORwE='', ''iVBORwI='']"
    using e by (simp add: pdf_to_base64_images_def o sample_render_def Let_def)
  have d: "b64decode ''iVBORwE='' = Some [0x89, 0x50, 0x4E, 0x47, 1]"
    "b64decode ''iVBORwI='' = Some [0x89, 0x50, 0x4E, 0x47, 2]"
    unfolding e[symmetric] by (rule b64decode_b64encode)+
  from pdf_to_base64_images_pages[where fitz_open = sample_fitz_open
      and pdf_path = "''report.pdf''" and doc = "[1, 2]" and render = sample_render
      and st = idle] o r v d show ?thesis
    by (simp add: sample_render_def)
qed

text \<open>
  C8 asks that the document be closed whether or not rendering raises. The code closes it
  only after the loop: on \<^verbatim>\<open>broken.pdf\<close>, whose second page raises, the call ends with the
  error and the handle is still among the open documents.
\<close>

theorem pdf_handle_left_open:
  "pdf_to_base64_images sample_fitz_open sample_render ''broken.pdf'' idle =
     (Inl RenderError,
      \<lparr>open_docs = [''broken.pdf''],
       stdout = [''Converting 3 page(s) in base64 images...'', ''  Page 1/3 done'']\<rparr>)"
  by (simp add: pdf_to_base64_images_def sample_fitz_open_def sample_render_def idle_def
      Let_def str_nat_digit digit_char_def)

section \<open>Properties of the compliance check\<close>

lemma float_lt_irrefl: "\<not> float_lt x x"
  by (cases x) simp_all

lemma select_rows_filter:
  "select_rows df (map p df) = filter p df"
  by (induction df) (simp_all add: select_rows_def)

text \<open>
  With a name column that \<^verbatim>\<open>.str\<close> accepts and a pattern that compiles, the row taken is
  the first one whose name the compiled pattern finds; rows without a name are passed over.
\<close>

lemma first_match_find:
  assumes "re_compile lib query = Some found"
    and "\<not> all_missing (map name_of df)"
  shows "first_match lib df name_of query =
           Inr (find (\<lambda>row. case name_of row of None \<Rightarrow> False | Some s \<Rightarrow> found s) df)"
proof -
  let ?p = "\<lambda>row. case name_of row of None \<Rightarrow> False | Some s \<Rightarrow> found s"
  have "map (\<lambda>cell. case cell of None \<Rightarrow> False | Some s \<Rightarrow> found s) (map name_of df) = map ?p df"
    by simp
  then have "first_match lib df name_of query =
      Inr (case filter ?p df of [] \<Rightarrow> None | row # _ \<Rightarrow> Some row)"
    using assms by (simp add: first_match_def str_contains_def select_rows_filter comp_def)
  also have "(case filter ?p df of [] \<Rightarrow> None | row # _ \<Rightarrow> Some row) = find ?p df"
    by (induction df) simp_all
  finally show ?thesis .
qed

text \<open>A pattern that does not compile raises, whatever names the table holds.\<close>

lemma first_match_raises:
  "re_compile lib query = None \<Longrightarrow> \<not> all_missing (map name_of df) \<Longrightarrow>
   first_match lib df name_of query = Inl ReError"
  by (simp add: first_match_def str_contains_def)

text \<open>
  When the selection for the product is empty the function returns the error dict that
  names the product, prints nothing and makes no request; likewise for the substance.
\<close>

lemma product_not_found:
  "first_match lib df_prod prod_name product_name = Inr None \<Longrightarrow>
   fetch_mrl_data lib http df_prod df_pest product_name sub_name mrl w =
     (Inr (ErrorDict (''Product '' @ quoted product_name @ '' not found in EU database.'')),
      [], w)"
  by (simp add: fetch_mrl_data_def)

lemma substance_not_found:
  "first_match lib df_prod prod_name product_name = Inr (Some prod_row) \<Longrightarrow>
   first_match lib df_pest subst_name sub_name = Inr None \<Longrightarrow>
   fetch_mrl_data lib http df_prod df_pest product_name sub_name mrl w =
     (Inr (ErrorDict (''Substance '' @ quoted sub_name @ '' not found in EU database.'')),
      [], w)"
  by (simp add: fetch_mrl_data_def)

lemma fetch_mrl_data_resolved:
  assumes "resolved lib http df_prod df_pest product_name sub_name w = Some (rule, w')"
  shows "fetch_mrl_data lib http df_prod df_pest product_name sub_name mrl w =
           (fst (compliance lib product_name sub_name rule mrl),
            snd (compliance lib product_name sub_name rule mrl), w')"
  using assms
  by (auto simp: resolved_def fetch_mrl_data_def
      split: sum.splits option.splits list.splits prod.splits)

subsection \<open>Ints and doubles\<close>

lemma bit_length_bound: "n < 2 ^ k \<Longrightarrow> bit_length n \<le> k"
proof (induction k arbitrary: n)
  case 0
  then show ?case by (simp add: bit_length.simps)
next
  case (Suc k)
  show ?case
  proof (cases "n = 0")
    case True
    then show ?thesis by (simp add: bit_length.simps)
  next
    case False
    from Suc.prems have "n div 2 < 2 ^ k" by simp
    from Suc.IH[OF this] False show ?thesis by (subst bit_length.simps) simp
  qed
qed

lemma round53_exact: "n < 2 ^ 53 \<Longrightarrow> round53 n = n"
  using bit_length_bound[of n 53] by (simp add: round53_def)

lemma below_overflow: "(2::nat) ^ 53 < dbl_overflow"
  unfolding dbl_overflow_def by (rule power_strict_increasing) simp_all

text \<open>Up to \<open>2 ^ 53\<close> in magnitude an int is its own double.\<close>

lemma float_of_int_exact: "nat \<bar>i\<bar> < 2 ^ 53 \<Longrightarrow> float_of_int i = Inr (Finite (of_int i))"
  using below_overflow by (auto simp: float_of_int_def round53_exact Let_def)

lemma float_of_int_overflow: "dbl_overflow \<le> nat \<bar>i\<bar> \<Longrightarrow> float_of_int i = Inl OverflowError"
  by (simp add: float_of_int_def)

lemma length_str_nat: "0 < d \<Longrightarrow> n < 10 ^ d \<Longrightarrow> length (str_nat n) \<le> d"
proof (induction d arbitrary: n)
  case 0
  then show ?case by simp
next
  case (Suc d)
  show ?case
  proof (cases "n < 10")
    case True
    then show ?thesis by (simp add: str_nat.simps)
  next
    case False
    with Suc.prems have d: "0 < d" by (cases d) auto
    from Suc.prems have "n div 10 < 10 ^ d" by (simp add: less_mult_imp_div_less mult.commute)
    from Suc.IH[OF d this] False show ?thesis
      by (subst str_nat.simps) simp
  qed
qed

lemma overflow_digits: "dbl_overflow < 10 ^ 640"
proof -
  have e: "(1024::nat) = 4 * 256" "(512::nat) = 2 * 256" by simp_all
  have "(2::nat) ^ 1024 = (2 ^ 4) ^ 256" by (subst e(1), rule power_mult)
  also have "\<dots> \<le> (10 ^ 2) ^ 256" by (rule power_mono) simp_all
  also have "\<dots> = 10 ^ 512" by (subst e(2), rule power_mult[symmetric])
  also have "\<dots> < 10 ^ 640" by (rule power_strict_increasing) simp_all
  finally show ?thesis by (simp only: dbl_overflow_def)
qed

lemma prints_up_to_overflow: "n \<le> dbl_overflow \<Longrightarrow> length (str_nat n) \<le> 640"
  using overflow_digits length_str_nat[of 640 n] by simp

text \<open>A value that \<^verbatim>\<open>float\<close> converts is one that prints.\<close>

lemma py_float_prints: "py_float lib mrl = Inr x \<Longrightarrow> \<exists>shown. py_str lib mrl = Inr shown"
proof (cases mrl)
  case (PyInt i)
  assume "py_float lib mrl = Inr x"
  with PyInt have "\<not> dbl_overflow \<le> nat \<bar>i\<bar>"
    by (auto simp: float_of_int_def Let_def split: if_splits)
  then have "length (str_nat (nat \<bar>i\<bar>)) \<le> 640"
    using prints_up_to_overflow[of "nat \<bar>i\<bar>"] by simp
  with PyInt show ?thesis by simp
qed simp_all

subsection \<open>The run after the names have resolved\<close>

lemma compliance_verdict:
  assumes "py_get rule ''mrl_value'' (JArr []) = Inr (JStr s)"
    and "py_str lib mrl = Inr shown"
    and "py_float lib mrl = Inr x"
  shows "compliance lib product_name sub_name rule mrl =
           (Inr PyNone,
            [''MRL data found for product '' @ quoted product_name @
             '' and substance '' @ quoted sub_name @ ''.''] @
            snd (mrl_options_value lib s) @
            [''MRL options from EU database: '' @ s,
             ''MRL value from report: '' @ shown,
             CHR 0x0A # replicate 50 (CHR ''=''),
             ''COMPLIANCE RESULT:'',
             replicate 50 (CHR ''=''),
             if s = ''No MRL required'' \<or> float_lt x (fst (mrl_options_value lib s))
             then ''CONFORME'' else ''NON CONFORME''])"
  using assms by (simp add: compliance_def Let_def split: prod.splits)

lemma compliance_raises:
  assumes "py_get rule ''mrl_value'' (JArr []) = Inr (JStr s)"
    and "py_str lib mrl = Inr shown"
    and "py_float lib mrl = Inl e"
  shows "compliance lib product_name sub_name rule mrl =
           (Inl e,
            [''MRL data found for product '' @ quoted product_name @
             '' and substance '' @ quoted sub_name @ ''.''] @
            snd (mrl_options_value lib s) @
            [''MRL options from EU database: '' @ s,
             ''MRL value from report: '' @ shown])"
  using assms by (simp add: compliance_def Let_def split: prod.splits)

lemma mrl_options_value_threshold:
  "s \<noteq> ''No MRL required'' \<Longrightarrow> fst (mrl_options_value lib s) = threshold lib s"
  by (simp add: mrl_options_value_def threshold_def split: option.splits)

text \<open>
  When the names resolve to a rule with a string value and \<^verbatim>\<open>float(mrl)\<close> gives \<open>x\<close>, the
  run ends normally, and its last line is the verdict for \<open>x\<close>.
\<close>

lemma resolved_string_run:
  assumes "resolved lib http df_prod df_pest product_name sub_name w = Some (rule, w')"
    and "py_get rule ''mrl_value'' (JArr []) = Inr (JStr s)"
    and "py_float lib mrl = Inr x"
  shows "\<exists>out shown. fetch_mrl_data lib http df_prod df_pest product_name sub_name mrl w =
           (Inr PyNone,
            out @ snd (mrl_options_value lib s) @
            [''MRL options from EU database: '' @ s,
             ''MRL value from report: '' @ shown,
             CHR 0x0A # replicate 50 (CHR ''=''),
             ''COMPLIANCE RESULT:'',
             replicate 50 (CHR ''=''),
             if s = ''No MRL required'' \<or> float_lt x (threshold lib s)
             then ''CONFORME'' else ''NON CONFORME''], w')"
proof -
  from py_float_prints[OF assms(3)] obtain shown where p: "py_str lib mrl = Inr shown" ..
  note c = compliance_verdict[OF assms(2) p assms(3), of product_name sub_name]
  note f = fetch_mrl_data_resolved[OF assms(1), of mrl]
  show ?thesis
  proof (cases "s = ''No MRL required''")
    case True
    with f c show ?thesis by simp
  next
    case False
    with f c mrl_options_value_threshold[OF False, of lib] show ?thesis by simp
  qed
qed

text \<open>
  When \<^verbatim>\<open>float(mrl)\<close> raises, the run ends with that error after the line that shows the
  measured value: no verdict is printed.
\<close>

lemma resolved_raising_run:
  assumes "resolved lib http df_prod df_pest product_name sub_name w = Some (rule, w')"
    and "py_get rule ''mrl_value'' (JArr []) = Inr (JStr s)"
    and "py_str lib mrl = Inr shown"
    and "py_float lib mrl = Inl e"
  shows "\<exists>out. fetch_mrl_data lib http df_prod df_pest product_name sub_name mrl w =
           (Inl e, out @ [''MRL value from report: '' @ shown], w')"
proof -
  note c = compliance_raises[OF assms(2,3,4), of product_name sub_name]
  note f = fetch_mrl_data_resolved[OF assms(1), of mrl]
  have "fetch_mrl_data lib http df_prod df_pest product_name sub_name mrl w =
      (Inl e,
       ([''MRL data found for product '' @ quoted product_name @
         '' and substance '' @ quoted sub_name @ ''.''] @
        snd (mrl_options_value lib s) @
        [''MRL options from EU database: '' @ s]) @
       [''MRL value from report: '' @ shown], w')"
    using f c by simp
  then show ?thesis by blast
qed

lemma emitted_last: "emitted (r, xs @ [v], w) = v"
  by (simp add: emitted_def printed_def)

lemma not_below_zero: "positive x \<Longrightarrow> \<not> float_lt x (Finite 0)"
  by (cases x) (simp_all add: positive_def)

text \<open>The ints of the sample runs: \<open>2 ^ 1024\<close> overflows and prints.\<close>

lemma overflow_int:
  "py_float lib (PyInt (int dbl_overflow)) = Inl OverflowError"
  "py_str lib (PyInt (int dbl_overflow)) = Inr (str_int (int dbl_overflow))"
  using prints_up_to_overflow[of dbl_overflow] by (simp_all add: float_of_int_overflow)

subsection \<open>The verdict\<close>

text \<open>
  C1, as the code has it. For a pair of names that resolves to a rule whose \<^verbatim>\<open>mrl_value\<close> is
  the string \<open>s\<close>, and a measured value that \<^verbatim>\<open>float\<close> converts to \<open>x\<close>, the run ends
  normally and the verdict it prints is \<^verbatim>\<open>CONFORME\<close> exactly when \<open>s\<close> is
  \<^verbatim>\<open>No MRL required\<close> or \<open>x\<close> is strictly below the threshold, which is the float in \<open>s\<close>
  with every asterisk taken out (0 when there is none), and \<^verbatim>\<open>NON CONFORME\<close> in every other
  case; \<open>x\<close> equal to the threshold is one of these.
\<close>

theorem verdict_rule:
  assumes "resolved lib http df_prod df_pest product_name sub_name w = Some (rule, w')"
    and "py_get rule ''mrl_value'' (JArr []) = Inr (JStr s)"
    and "py_float lib mrl = Inr x"
  shows "fst (fetch_mrl_data lib http df_prod df_pest product_name sub_name mrl w) = Inr PyNone \<and>
         ((emitted (fetch_mrl_data lib http df_prod df_pest product_name sub_name mrl w)
             = ''CONFORME'')
           = (s = ''No MRL required'' \<or> float_lt x (threshold lib s))) \<and>
         ((emitted (fetch_mrl_data lib http df_prod df_pest product_name sub_name mrl w)
             = ''NON CONFORME'')
           = (\<not> (s = ''No MRL required'' \<or> float_lt x (threshold lib s)))) \<and>
         (s \<noteq> ''No MRL required'' \<and> x = threshold lib s \<longrightarrow>
            emitted (fetch_mrl_data lib http df_prod df_pest product_name sub_name mrl w)
              = ''NON CONFORME'')"
proof -
  let ?v = "if s = ''No MRL required'' \<or> float_lt x (threshold lib s)
            then ''CONFORME'' else ''NON CONFORME''"
  from resolved_string_run[OF assms] obtain out shown where
    "fetch_mrl_data lib http df_prod df_pest product_name sub_name mrl w =
       (Inr PyNone,
        out @ snd (mrl_options_value lib s) @
        [''MRL options from EU database: '' @ s,
         ''MRL value from report: '' @ shown,
         CHR 0x0A # replicate 50 (CHR ''=''),
         ''COMPLIANCE RESULT:'',
         replicate 50 (CHR ''=''), ?v], w')"
    by blast
  then have run: "fetch_mrl_data lib http df_prod df_pest product_name sub_name mrl w =
       (Inr PyNone,
        (out @ snd (mrl_options_value lib s) @
         [''MRL options from EU database: '' @ s,
          ''MRL value from report: '' @ shown,
          CHR 0x0A # replicate 50 (CHR ''=''),
          ''COMPLIANCE RESULT:'',
          replicate 50 (CHR ''='')]) @ [?v], w')"
    by simp
  have e: "emitted (fetch_mrl_data lib http df_prod df_pest product_name sub_name mrl w) = ?v"
    unfolding run by (rule emitted_last)
  have r: "fst (fetch_mrl_data lib http df_prod df_pest product_name sub_name mrl w) = Inr PyNone"
    unfolding run by simp
  show ?thesis
    unfolding e r using float_lt_irrefl[of "threshold lib s"] by simp
qed

theorem verdict_rule_witness:
  "resolved sample_lib mrl_http sample_products sample_substances ''apple'' ''captan'' 0
     = Some (rule_a, 1) \<and>
   py_get rule_a ''mrl_value'' (JArr []) = Inr (JStr ''0.01*'') \<and>
   threshold sample_lib ''0.01*'' = d001 \<and>
   py_float sample_lib (PyFloat d0005) = Inr d0005 \<and>
   emitted (fetch_mrl_data sample_lib mrl_http sample_products sample_substances
              ''apple'' ''captan'' (PyFloat d0005) 0) = ''CONFORME'' \<and>
   emitted (fetch_mrl_data sample_lib mrl_http sample_products sample_substances
              ''apple'' ''captan'' (PyFloat d001) 0) = ''NON CONFORME'' \<and>
   emitted (fetch_mrl_data sample_lib mrl_http sample_products sample_substances
              ''apple'' ''captan'' (PyFloat d002) 0) = ''NON CONFORME'' \<and>
   resolved sample_lib mrl_http sample_products sample_substances ''kiwi'' ''captan'' 0
     = Some (rule_free, 1) \<and>
   emitted (fetch_mrl_data sample_lib mrl_http sample_products sample_substances
              ''kiwi'' ''captan'' (PyFloat d002) 0) = ''CONFORME'' \<and>
   resolved sample_lib mrl_http sample_products sample_substances ''mango'' ''captan'' 0
     = Some (rule_star, 1) \<and>
   threshold sample_lib ''1*5'' = Finite 15 \<and>
   py_float sample_lib (PyInt 10) = Inr (Finite 10) \<and>
   emitted (fetch_mrl_data sample_lib mrl_http sample_products sample_substances
              ''mango'' ''captan'' (PyInt 10) 0) = ''CONFORME''"
proof -
  have k1: "resolved sample_lib mrl_http sample_products sample_substances ''kiwi'' ''captan'' 0
      = Some (rule_free, 1)"
    by code_simp
  have k2: "py_get rule_free ''mrl_value'' (JArr []) = Inr (JStr ''No MRL required'')"
    by (simp add: rule_free_def)
  have h1: "resolved sample_lib mrl_http sample_products sample_substances ''apple'' ''captan'' 0
      = Some (rule_a, 1)"
    by code_simp
  have h2: "py_get rule_a ''mrl_value'' (JArr []) = Inr (JStr ''0.01*'')"
    by (simp add: rule_a_def)
  have m1: "resolved sample_lib mrl_http sample_products sample_substances ''mango'' ''captan'' 0
      = Some (rule_star, 1)"
    by code_simp
  have m2: "py_get rule_star ''mrl_value'' (JArr []) = Inr (JStr ''1*5'')"
    by (simp add: rule_star_def)
  have t: "threshold sample_lib ''0.01*'' = d001" "threshold sample_lib ''1*5'' = Finite 15"
    by (simp_all add: threshold_def sample_lib_def sample_float_of_str_def)
  have c: "float_lt d0005 d001" "\<not> float_lt d001 d001" "\<not> float_lt d002 d001"
    by (simp_all add: d0005_def d001_def d002_def)
  have f: "py_float sample_lib (PyFloat d0005) = Inr d0005"
    "py_float sample_lib (PyFloat d001) = Inr d001"
    "py_float sample_lib (PyFloat d002) = Inr d002"
    by simp_all
  have i: "py_float sample_lib (PyInt 10) = Inr (Finite 10)"
    using float_of_int_exact[of 10] by simp
  from verdict_rule[OF h1 h2 f(1)] verdict_rule[OF h1 h2 f(2)] verdict_rule[OF h1 h2 f(3)]
    verdict_rule[OF k1 k2 f(3)] verdict_rule[OF m1 m2 i] h1 h2 k1 m1 t c f i
  show ?thesis by simp
qed

text \<open>
  C1 as it is stated fails in two places. With the reference \<^verbatim>\<open>No MRL required\<close> and the
  measured int \<open>2 ^ 1024\<close>, \<^verbatim>\<open>float(mrl)\<close> raises \<^verbatim>\<open>OverflowError\<close> and no verdict is
  printed. With the reference \<^verbatim>\<open>1*5\<close>, whose trailing marker stripped leaves no float
  (threshold 0 in the words of the specification), the code compares with 15 and the
  measured value 10 is \<^verbatim>\<open>CONFORME\<close>.
\<close>

theorem verdict_rule_counterexample:
  "resolved sample_lib mrl_http sample_products sample_substances ''kiwi'' ''captan'' 0
     = Some (rule_free, 1) \<and>
   py_get rule_free ''mrl_value'' (JArr []) = Inr (JStr ''No MRL required'') \<and>
   fst (fetch_mrl_data sample_lib mrl_http sample_products sample_substances
          ''kiwi'' ''captan'' (PyInt (int dbl_overflow)) 0) = Inl OverflowError \<and>
   emitted (fetch_mrl_data sample_lib mrl_http sample_products sample_substances
              ''kiwi'' ''captan'' (PyInt (int dbl_overflow)) 0) \<noteq> ''CONFORME'' \<and>
   resolved sample_lib mrl_http sample_products sample_substances ''mango'' ''captan'' 0
     = Some (rule_star, 1) \<and>
   py_get rule_star ''mrl_value'' (JArr []) = Inr (JStr ''1*5'') \<and>
   spec_threshold sample_lib ''1*5'' = Finite 0 \<and>
   py_float sample_lib (PyFloat (Finite 10)) = Inr (Finite 10) \<and>
   \<not> float_lt (Finite 10) (spec_threshold sample_lib ''1*5'') \<and>
   emitted (fetch_mrl_data sample_lib mrl_http sample_products sample_substances
              ''mango'' ''captan'' (PyFloat (Finite 10)) 0) = ''CONFORME''"
proof -
  have k1: "resolved sample_lib mrl_http sample_products sample_substances ''kiwi'' ''captan'' 0
      = Some (rule_free, 1)"
    by code_simp
  have k2: "py_get rule_free ''mrl_value'' (JArr []) = Inr (JStr ''No MRL required'')"
    by (simp add: rule_free_def)
  from resolved_raising_run[OF k1 k2 overflow_int(2)[of sample_lib] overflow_int(1)[of sample_lib]]
  obtain out where run: "fetch_mrl_data sample_lib mrl_http sample_products sample_substances
      ''kiwi'' ''captan'' (PyInt (int dbl_overflow)) 0 =
      (Inl OverflowError, out @ [''MRL value from report: '' @ str_int (int dbl_overflow)], 1)"
    by blast
  have o1: "fst (fetch_mrl_data sample_lib mrl_http sample_products sample_substances
      ''kiwi'' ''captan'' (PyInt (int dbl_overflow)) 0) = Inl OverflowError"
    unfolding run by simp
  have "emitted (fetch_mrl_data sample_lib mrl_http sample_products sample_substances
      ''kiwi'' ''captan'' (PyInt (int dbl_overflow)) 0) =
      ''MRL value from report: '' @ str_int (int dbl_overflow)"
    unfolding run by (rule emitted_last)
  then have o2: "emitted (fetch_mrl_data sample_lib mrl_http sample_products sample_substances
      ''kiwi'' ''captan'' (PyInt (int dbl_overflow)) 0) \<noteq> ''CONFORME''"
    by simp
  have m1: "resolved sample_lib mrl_http sample_products sample_substances ''mango'' ''captan'' 0
      = Some (rule_star, 1)"
    by code_simp
  have m2: "py_get rule_star ''mrl_value'' (JArr []) = Inr (JStr ''1*5'')"
    by (simp add: rule_star_def)
  have s: "spec_threshold sample_lib ''1*5'' = Finite 0"
    by (simp add: spec_threshold_def strip_trailing_marker_def sample_lib_def
        sample_float_of_str_def)
  have v: "emitted (fetch_mrl_data sample_lib mrl_http sample_products sample_substances
      ''mango'' ''captan'' (PyFloat (Finite 10)) 0) = ''CONFORME''"
    by code_simp
  from k1 k2 o1 o2 m1 m2 s v show ?thesis by simp
qed

text \<open>
  C4, as the code has it. For a pair of names that resolves to a rule whose \<^verbatim>\<open>mrl_value\<close> is
  a string other than \<^verbatim>\<open>No MRL required\<close> that is no float once every asterisk is taken
  out, and a measured value that \<^verbatim>\<open>float\<close> converts to a value above zero: the threshold
  is 0, the warning is among the lines printed, nothing else happens (the run ends normally
  in the world the lookup left), and the verdict is \<^verbatim>\<open>NON CONFORME\<close>.
\<close>

theorem unparsable_reference:
  assumes "resolved lib http df_prod df_pest product_name sub_name w = Some (rule, w')"
    and "py_get rule ''mrl_value'' (JArr []) = Inr (JStr s)"
    and "s \<noteq> ''No MRL required''"
    and "float_of_str lib (filter (\<lambda>c. c \<noteq> CHR ''*'') s) = None"
    and "py_float lib mrl = Inr x"
    and "positive x"
  shows "fst (mrl_options_value lib s) = Finite 0 \<and>
         fst (fetch_mrl_data lib http df_prod df_pest product_name sub_name mrl w) = Inr PyNone \<and>
         world (fetch_mrl_data lib http df_prod df_pest product_name sub_name mrl w) = w' \<and>
         (''Warning: Unable to convert MRL option '' @ quoted s @ '' to float. Setting to 0.'')
           \<in> set (printed (fetch_mrl_data lib http df_prod df_pest product_name sub_name mrl w)) \<and>
         emitted (fetch_mrl_data lib http df_prod df_pest product_name sub_name mrl w)
           = ''NON CONFORME''"
proof -
  let ?warn = "''Warning: Unable to convert MRL option '' @ quoted s @ '' to float. Setting to 0.''"
  have m: "mrl_options_value lib s = (Finite 0, [?warn])"
    using assms(3,4) by (simp add: mrl_options_value_def)
  have t: "threshold lib s = Finite 0"
    using assms(4) by (simp add: threshold_def)
  from resolved_string_run[OF assms(1,2,5)] obtain out shown where
    "fetch_mrl_data lib http df_prod df_pest product_name sub_name mrl w =
       (Inr PyNone,
        out @ snd (mrl_options_value lib s) @
        [''MRL options from EU database: '' @ s,
         ''MRL value from report: '' @ shown,
         CHR 0x0A # replicate 50 (CHR ''=''),
         ''COMPLIANCE RESULT:'',
         replicate 50 (CHR ''=''),
         if s = ''No MRL required'' \<or> float_lt x (threshold lib s)
         then ''CONFORME'' else ''NON CONFORME''], w')"
    by blast
  then have run: "fetch_mrl_data lib http df_prod df_pest product_name sub_name mrl w =
       (Inr PyNone,
        (out @ [?warn] @
         [''MRL options from EU database: '' @ s,
          ''MRL value from report: '' @ shown,
          CHR 0x0A # replicate 50 (CHR ''=''),
          ''COMPLIANCE RESULT:'',
          replicate 50 (CHR ''='')]) @ [''NON CONFORME''], w')"
    using m t assms(3) not_below_zero[OF assms(6)] by simp
  have e: "emitted (fetch_mrl_data lib http df_prod df_pest product_name sub_name mrl w)
      = ''NON CONFORME''"
    unfolding run by (rule emitted_last)
  show ?thesis
    using m e unfolding run by (simp add: world_def printed_def)
qed

theorem unparsable_reference_witness:
  "resolved sample_lib mrl_http sample_products sample_substances ''pineapple'' ''captan'' 0
     = Some (rule_abc, 1) \<and>
   py_get rule_abc ''mrl_value'' (JArr []) = Inr (JStr ''abc'') \<and>
   float_of_str sample_lib (filter (\<lambda>c. c \<noteq> CHR ''*'') ''abc'') = None \<and>
   py_float sample_lib (PyFloat d001) = Inr d001 \<and>
   positive d001 \<and>
   fst (mrl_options_value sample_lib ''abc'') = Finite 0 \<and>
   fetch_mrl_data sample_lib mrl_http sample_products sample_substances
     ''pineapple'' ''captan'' (PyFloat d001) 0 =
     (Inr PyNone,
      [''MRL data found for product '' @ quoted ''pineapple'' @ '' and substance '' @
         quoted ''captan'' @ ''.'',
       ''Warning: Unable to convert MRL option '' @ quoted ''abc'' @ '' to float. Setting to 0.'',
       ''MRL options from EU database: abc'',
       ''MRL value from report: 0.01'',
       CHR 0x0A # ''=================================================='',
       ''COMPLIANCE RESULT:'',
       ''=================================================='',
       ''NON CONFORME''], 1) \<and>
   emitted (fetch_mrl_data sample_lib mrl_http sample_products sample_substances
              ''pineapple'' ''captan'' (PyFloat d001) 0) = ''NON CONFORME''"
proof -
  have h1: "resolved sample_lib mrl_http sample_products sample_substances
      ''pineapple'' ''captan'' 0 = Some (rule_abc, 1)"
    by code_simp
  have h2: "py_get rule_abc ''mrl_value'' (JArr []) = Inr (JStr ''abc'')"
    by (simp add: rule_abc_def)
  have h3: "''abc'' \<noteq> ''No MRL required''" by simp
  have h4: "float_of_str sample_lib (filter (\<lambda>c. c \<noteq> CHR ''*'') ''abc'') = None"
    by (simp add: sample_lib_def sample_float_of_str_def)
  have h5: "py_float sample_lib (PyFloat d001) = Inr d001" by simp
  have h6: "positive d001" by (simp add: positive_def d001_def)
  have v: "fetch_mrl_data sample_lib mrl_http sample_products sample_substances
     ''pineapple'' ''captan'' (PyFloat d001) 0 =
     (Inr PyNone,
      [''MRL data found for product '' @ quoted ''pineapple'' @ '' and substance '' @
         quoted ''captan'' @ ''.'',
       ''Warning: Unable to convert MRL option '' @ quoted ''abc'' @ '' to float. Setting to 0.'',
       ''MRL options from EU database: abc'',
       ''MRL value from report: 0.01'',
       CHR 0x0A # ''=================================================='',
       ''COMPLIANCE RESULT:'',
       ''=================================================='',
       ''NON CONFORME''], 1)"
    by code_simp
  from unparsable_reference[OF h1 h2 h3 h4 h5 h6] h1 h2 h4 h5 h6 v show ?thesis by simp
qed

text \<open>
  C4 as it is stated fails in two places. With the reference \<^verbatim>\<open>abc\<close> and the measured int
  \<open>2 ^ 1024\<close>, which is above zero, \<^verbatim>\<open>float(mrl)\<close> raises \<^verbatim>\<open>OverflowError\<close> after the
  warning and no verdict is printed. The reference \<^verbatim>\<open>1*5\<close> is no float after its trailing
  marker is stripped, yet the code takes out the asterisk inside it as well, reads 15,
  prints no warning, and the measured value 10 is \<^verbatim>\<open>CONFORME\<close>.
\<close>

theorem unparsable_reference_counterexample:
  "resolved sample_lib mrl_http sample_products sample_substances ''pineapple'' ''captan'' 0
     = Some (rule_abc, 1) \<and>
   py_get rule_abc ''mrl_value'' (JArr []) = Inr (JStr ''abc'') \<and>
   float_of_str sample_lib (strip_trailing_marker ''abc'') = None \<and>
   0 < int dbl_overflow \<and>
   fst (fetch_mrl_data sample_lib mrl_http sample_products sample_substances
          ''pineapple'' ''captan'' (PyInt (int dbl_overflow)) 0) = Inl OverflowError \<and>
   emitted (fetch_mrl_data sample_lib mrl_http sample_products sample_substances
              ''pineapple'' ''captan'' (PyInt (int dbl_overflow)) 0) \<noteq> ''NON CONFORME'' \<and>
   resolved sample_lib mrl_http sample_products sample_substances ''mango'' ''captan'' 0
     = Some (rule_star, 1) \<and>
   py_get rule_star ''mrl_value'' (JArr []) = Inr (JStr ''1*5'') \<and>
   float_of_str sample_lib (strip_trailing_marker ''1*5'') = None \<and>
   py_float sample_lib (PyFloat (Finite 10)) = Inr (Finite 10) \<and>
   positive (Finite 10) \<and>
   emitted (fetch_mrl_data sample_lib mrl_http sample_products sample_substances
              ''mango'' ''captan'' (PyFloat (Finite 10)) 0) = ''CONFORME'' \<and>
   (''Warning: Unable to convert MRL option '' @ quoted ''1*5'' @ '' to float. Setting to 0.'')
     \<notin> set (printed (fetch_mrl_data sample_lib mrl_http sample_products sample_substances
                        ''mango'' ''captan'' (PyFloat (Finite 10)) 0))"
proof -
  have h1: "resolved sample_lib mrl_http sample_products sample_substances
      ''pineapple'' ''captan'' 0 = Some (rule_abc, 1)"
    by code_simp
  have h2: "py_get rule_abc ''mrl_value'' (JArr []) = Inr (JStr ''abc'')"
    by (simp add: rule_abc_def)
  from resolved_raising_run[OF h1 h2 overflow_int(2)[of sample_lib] overflow_int(1)[of sample_lib]]
  obtain out where run: "fetch_mrl_data sample_lib mrl_http sample_products sample_substances
      ''pineapple'' ''captan'' (PyInt (int dbl_overflow)) 0 =
      (Inl OverflowError, out @ [''MRL value from report: '' @ str_int (int dbl_overflow)], 1)"
    by blast
  have o1: "fst (fetch_mrl_data sample_lib mrl_http sample_products sample_substances
      ''pineapple'' ''captan'' (PyInt (int dbl_overflow)) 0) = Inl OverflowError"
    unfolding run by simp
  have "emitted (fetch_mrl_data sample_lib mrl_http sample_products sample_substances
      ''pineapple'' ''captan'' (PyInt (int dbl_overflow)) 0) =
      ''MRL value from report: '' @ str_int (int dbl_overflow)"
    unfolding run by (rule emitted_last)
  then have o2: "emitted (fetch_mrl_data sample_lib mrl_http sample_products sample_substances
      ''pineapple'' ''captan'' (PyInt (int dbl_overflow)) 0) \<noteq> ''NON CONFORME''"
    by simp
  have p: "0 < int dbl_overflow" unfolding dbl_overflow_def by simp
  have m1: "resolved sample_lib mrl_http sample_products sample_substances ''mango'' ''captan'' 0
      = Some (rule_star, 1)"
    by code_simp
  have m2: "py_get rule_star ''mrl_value'' (JArr []) = Inr (JStr ''1*5'')"
    by (simp add: rule_star_def)
  have s: "float_of_str sample_lib (strip_trailing_marker ''abc'') = None"
    "float_of_str sample_lib (strip_trailing_marker ''1*5'') = None"
    by (simp_all add: strip_trailing_marker_def sample_lib_def sample_float_of_str_def)
  have q: "positive (Finite 10)" by (simp add: positive_def)
  have v: "emitted (fetch_mrl_data sample_lib mrl_http sample_products sample_substances
      ''mango'' ''captan'' (PyFloat (Finite 10)) 0) = ''CONFORME''"
    by code_simp
  have n: "(''Warning: Unable to convert MRL option '' @ quoted ''1*5'' @ '' to float. Setting to 0.'')
     \<notin> set (printed (fetch_mrl_data sample_lib mrl_http sample_products sample_substances
                        ''mango'' ''captan'' (PyFloat (Finite 10)) 0))"
    by code_simp
  from h1 h2 s p o1 o2 m1 m2 q v n show ?thesis by simp
qed

subsection \<open>The lookup by name\<close>

text \<open>
  C3 asks for the first row whose name contains the query, for any query. The condition the
  code computes treats the query as a regular expression. The product cached under the
  name \<^verbatim>\<open>Beans (with pods)\<close> contains that very name, and asked for by it the function
  answers that the product is not found, because the parentheses are read as a group. The
  query \<^verbatim>\<open>a..le\<close>, which no name contains, selects \<^verbatim>\<open>Apple, dessert\<close>.
\<close>

theorem name_with_parentheses_not_found:
  "prod_name (sample_products ! 0) = Some ''Beans (with pods)'' \<and>
   contains_ci ''Beans (with pods)'' ''Beans (with pods)'' \<and>
   fetch_mrl_data sample_lib mrl_http sample_products sample_substances
     ''Beans (with pods)'' ''captan'' (PyFloat d001) 0 =
     (Inr (ErrorDict (''Product '' @ quoted ''Beans (with pods)'' @
                      '' not found in EU database.'')), [], 0) \<and>
   \<not> list_ex (\<lambda>row. case prod_name row of None \<Rightarrow> False | Some s \<Rightarrow> contains_ci ''a..le'' s)
        sample_products \<and>
   first_match sample_lib sample_products prod_name ''a..le'' =
     Inr (Some \<lparr>prod_name = Some ''Apple, dessert'', prod_id = ''1''\<rparr>)"
  by code_simp

text \<open>
  C5 asks for the not-found value for every name without a matching row. A name that does
  not compile as a regular expression raises instead: with an empty product cache the name
  \<^verbatim>\<open>Beans (\<close> raises, and so does the substance name \<^verbatim>\<open>Captan (\<close>, which no cached
  substance contains, after the product has matched. No request is made in either run.
\<close>

theorem unbalanced_name_raises:
  "fetch_mrl_data sample_lib mrl_http [] sample_substances ''Beans ('' ''captan'' (PyFloat d001) 0 =
     (Inl ReError, [], 0) \<and>
   first_match sample_lib sample_products prod_name ''apple'' =
     Inr (Some \<lparr>prod_name = Some ''Apple, dessert'', prod_id = ''1''\<rparr>) \<and>
   \<not> list_ex (\<lambda>row. case subst_name row of None \<Rightarrow> False | Some s \<Rightarrow> contains_ci ''Captan ('' s)
        sample_substances \<and>
   fetch_mrl_data sample_lib mrl_http sample_products sample_substances
     ''apple'' ''Captan ('' (PyFloat d001) 0 = (Inl ReError, [], 0)"
  by code_simp

section \<open>Properties of the reference data builder\<close>

text \<open>
  When both fetches end with records, the frames build, the product frame has the column
  and the cast succeeds, both paths hold the text of their frame afterwards, written with
  the separator \<^verbatim>\<open>|\<close> and without the index, whatever the paths held before.
\<close>

lemma create_and_dump_data_writes:
  assumes "fetch_all_data http BASE_URL_PRODUCT PARAMS 30 w = Some (Inr prod_data, w1)"
    and "DataFrame lib prod_data = Inr df_prod"
    and "getitem df_prod ''product_parent_id'' = Inr column"
    and "fillna_astype_int lib column = Inr ints"
    and "fetch_all_data http BASE_URL_PEST PARAMS_PEST 30 w1 = Some (Inr pest, w2)"
    and "DataFrame lib pest = Inr df_pest"
  shows "create_and_dump_data lib http fs w =
           Some (Inr (),
                 fs(''eu_products.csv'' \<mapsto>
                      to_csv lib (setitem df_prod ''product_parent_id''
                                    (map (\<lambda>i. Some (JInt i)) ints)) ''|'' False,
                    ''eu_pesticides.csv'' \<mapsto> to_csv lib df_pest ''|'' False),
                 w2)"
  using assms by (simp add: create_and_dump_data_def Let_def)

text \<open>
  C7 asks, for every fetched set of product records, that the parent id be coerced and both
  files written. When the fetch brings no record, the frame has no column
  \<^verbatim>\<open>product_parent_id\<close>: the function ends with \<^verbatim>\<open>KeyError\<close> after the first fetch, writes
  neither file, and the cache of the earlier run stays as it was. This holds whatever the
  library does elsewhere.
\<close>

theorem create_and_dump_data_no_records:
  "create_and_dump_data lib empty_http old_files 0 = Some (Inl KeyError, old_files, 1)"
proof -
  have "page_chain empty_http 30 (first_request BASE_URL_PRODUCT PARAMS 30) 0
      [JObj [(''value'', JArr [])]] 1"
    by (simp add: empty_http_def is_success_def)
  from fetch_all_data_pages[OF this]
  have "fetch_all_data empty_http BASE_URL_PRODUCT PARAMS 30 0 = Some (Inr [], 1)"
    by (simp add: page_items_def)
  then show ?thesis
    by (simp add: create_and_dump_data_def DataFrame_def getitem_def)
qed

end
